theory Spec2Isabelle
  imports Complex_Main
begin

section \<open>Billing data model (features/billing/types, as used by lib/billing-primitives.ts)\<close>

text \<open>
  Modelled from the spec: the enums \<open>BillingStatus\<close> and \<open>BillingAccountType\<close> and the
  document type \<open>BillingAccount\<close>, which the source imports from a types module that is not
  among the sources. The values are those of the spec's data model; the fields are the ones
  the billing primitives read and write. Optional string fields are \<open>string option\<close>
  (\<open>None\<close> for \<open>undefined\<close>/\<open>null\<close>); an absent \<open>isBillingCycleLocked\<close> is falsy for
  every test the source makes (\<open>=== true\<close> and plain truthiness), so it is a \<open>bool\<close>.
  Timestamps of an account are strings, as the source stores them and hands them to
  \<open>new Date\<close>.
\<close>

datatype BillingStatus = ACTIVE | DUE | SUSPENDED

datatype BillingAccountType = PERSONAL | ORG

record BillingAccount =
  acc_id :: string
  acc_type :: BillingAccountType
  acc_userId :: "string option"
  acc_organizationId :: "string option"
  billingStatus :: BillingStatus
  billingCycleStart :: string
  billingCycleEnd :: string
  isBillingCycleLocked :: bool
  billingCycleLockedAt :: "string option"
  gracePeriodEnd :: "string option"

datatype BillingErrorCode =
  BILLING_SUSPENDED | BILLING_DUE | BILLING_NOT_FOUND | BILLING_CYCLE_LOCKED | USAGE_WRITE_BLOCKED

text \<open>
  Everything the modelled functions can throw. \<open>BillingError\<close> carries the code and the
  options object (\<open>billingAccountId\<close>, \<open>billingStatus\<close>); \<open>InvalidTransition\<close> is the plain
  \<open>Error\<close> of \<open>assertValidStatusTransition\<close>, carrying the three values its message is
  built from; \<open>DocumentNotFound\<close> is the store's exception for a missing document;
  \<open>RangeError\<close> is what \<open>toISOString\<close> throws on an invalid date.
\<close>

datatype exn =
    BillingError BillingErrorCode "string option" "BillingStatus option"
  | InvalidTransition BillingStatus BillingStatus "BillingStatus list"
  | DocumentNotFound string
  | RangeError

fun errorCode :: "exn \<Rightarrow> BillingErrorCode option" where
  "errorCode (BillingError c _ _) = Some c"
| "errorCode _ = None"

text \<open>
  The lookup options of \<open>getBillingAccount\<close>, and the fields of a workspace document
  that it reads.
\<close>

record BillingLookupOptions =
  opt_userId :: "string option"
  opt_organizationId :: "string option"
  opt_workspaceId :: "string option"

record Workspace =
  ws_id :: string
  ws_organizationId :: "string option"
  ws_userId :: "string option"

section \<open>Usage data model (features/usage/types, as used by the alert job and the invariant checker)\<close>

text \<open>
  Modelled from the spec: the enum \<open>ResourceType\<close> and the document types \<open>UsageEvent\<close>
  and \<open>UsageAlert\<close>, imported by the source from a types module that is not among the
  sources, and the aggregation document, which the source reads untyped. The fields are the
  ones the alert job and the reconciliation read. A number field holds the real value of a
  finite double.

  The store orders usage events by their \<open>timestamp\<close>, an ISO-8601 UTC string of fixed
  width (\<open>YYYY-MM-DDTHH:mm:ss.sssZ\<close>, as \<open>toISOString\<close> prints it). Such a string is kept
  as its fields: year, month (1 to 12), day of the month, millisecond of the day. On strings
  of that form the store's comparison is the lexicographic comparison of the fields. A
  timestamp the store holds need not be a date of the calendar.
\<close>

type_synonym IsoTime = "nat \<times> nat \<times> nat \<times> nat"

fun iso_le :: "IsoTime \<Rightarrow> IsoTime \<Rightarrow> bool" where
  "iso_le (y1, m1, d1, t1) (y2, m2, d2, t2) =
     (y1 < y2 \<or> (y1 = y2 \<and> (m1 < m2 \<or> (m1 = m2 \<and> (d1 < d2 \<or> (d1 = d2 \<and> t1 \<le> t2))))))"

fun iso_lt :: "IsoTime \<Rightarrow> IsoTime \<Rightarrow> bool" where
  "iso_lt (y1, m1, d1, t1) (y2, m2, d2, t2) =
     (y1 < y2 \<or> (y1 = y2 \<and> (m1 < m2 \<or> (m1 = m2 \<and> (d1 < d2 \<or> (d1 = d2 \<and> t1 < t2))))))"

datatype ResourceType = TRAFFIC | STORAGE | COMPUTE

record UsageEvent =
  ev_workspaceId :: string
  ev_resourceType :: ResourceType
  units :: real
  weightedUnits :: "real option"
  ev_timestamp :: IsoTime

text \<open>The \<open>period\<close> of an aggregation is the string \<open>YYYY-MM\<close>, kept as (year, month).\<close>

record UsageAggregation =
  agg_id :: string
  agg_workspaceId :: string
  period :: "nat \<times> nat"
  trafficTotalGB :: real
  storageAvgGB :: real
  computeTotalUnits :: real

datatype AlertType = in_app | webhook | email

record UsageAlert =
  alert_id :: string
  alert_workspaceId :: string
  alert_resourceType :: ResourceType
  threshold :: real
  alertType :: AlertType
  webhookUrl :: "string option"
  isEnabled :: bool
  lastTriggeredAt :: "IsoTime option"

text \<open>
  The in-app notification document and the webhook body. Their \<open>title\<close> and \<open>message\<close>
  strings are templates over the resource type, the usage and the threshold, which are kept
  as fields instead.
\<close>

record Notification =
  ntf_workspaceId :: string
  ntf_resourceType :: ResourceType
  ntf_currentUsage :: real
  ntf_threshold :: real
  ntf_isRead :: bool
  ntf_createdAt :: IsoTime
  ntf_userId :: "string option"

record WebhookPost =
  post_url :: string
  post_alertId :: string
  post_workspaceId :: string
  post_resourceType :: ResourceType
  post_threshold :: real
  post_currentUsage :: real
  post_triggeredAt :: IsoTime

section \<open>The document store\<close>

text \<open>
  The \<open>Databases\<close> client, as the collections the modelled functions touch, each in the
  store's listing order. The admin client and the caller's client read the same store. A
  store call fails only where a document is missing; outages are not modelled.
\<close>

record Databases =
  billing_accounts :: "BillingAccount list"
  workspaces :: "Workspace list"
  usage_events :: "UsageEvent list"
  usage_aggregations :: "UsageAggregation list"
  usage_alerts :: "UsageAlert list"
  notifications :: "Notification list"

record 'a DocumentList =
  dl_documents :: "'a list"
  dl_total :: nat

text \<open>
  \<open>listDocuments\<close> with a list of \<open>Query.equal\<close>/range predicates and a \<open>Query.limit\<close>:
  the documents that satisfy every predicate, cut at the limit; \<open>total\<close> counts all matches.
\<close>

definition listDocuments :: "'a list \<Rightarrow> ('a \<Rightarrow> bool) list \<Rightarrow> nat \<Rightarrow> 'a DocumentList" where
  "listDocuments collection queries limit =
     (let matching = filter (\<lambda>d. list_all (\<lambda>q. q d) queries) collection
      in \<lparr> dl_documents = take limit matching, dl_total = length matching \<rparr>)"

definition getDocument :: "'a list \<Rightarrow> ('a \<Rightarrow> string) \<Rightarrow> string \<Rightarrow> exn + 'a" where
  "getDocument collection idOf docId =
     (case find (\<lambda>d. idOf d = docId) collection of
        None \<Rightarrow> Inl (DocumentNotFound docId)
      | Some d \<Rightarrow> Inr d)"

fun updateFirst :: "('a \<Rightarrow> bool) \<Rightarrow> ('a \<Rightarrow> 'a) \<Rightarrow> 'a list \<Rightarrow> 'a list option" where
  "updateFirst P f [] = None"
| "updateFirst P f (d # ds) =
     (if P d then Some (f d # ds)
      else (case updateFirst P f ds of None \<Rightarrow> None | Some ds' \<Rightarrow> Some (d # ds')))"

definition updateDocument ::
  "'a list \<Rightarrow> ('a \<Rightarrow> string) \<Rightarrow> string \<Rightarrow> ('a \<Rightarrow> 'a) \<Rightarrow> exn + 'a list" where
  "updateDocument collection idOf docId patch =
     (case updateFirst (\<lambda>d. idOf d = docId) patch collection of
        None \<Rightarrow> Inl (DocumentNotFound docId)
      | Some collection' \<Rightarrow> Inr collection')"

section \<open>Billing account lookup\<close>

text \<open>A JavaScript truthiness test on an optional string: set and not empty.\<close>

definition truthyStr :: "string option \<Rightarrow> string option" where
  "truthyStr s = (case s of None \<Rightarrow> None | Some v \<Rightarrow> if v = [] then None else Some v)"

text \<open>\<open>if (accounts.total > 0) return accounts.documents[0]\<close>\<close>

definition firstDocument :: "'a DocumentList \<Rightarrow> 'a option" where
  "firstDocument accounts =
     (if dl_total accounts > 0
      then (case dl_documents accounts of [] \<Rightarrow> None | d # _ \<Rightarrow> Some d)
      else None)"

definition listOrgAccounts :: "Databases \<Rightarrow> string \<Rightarrow> BillingAccount DocumentList" where
  "listOrgAccounts databases orgId =
     listDocuments (billing_accounts databases)
       [\<lambda>a. acc_organizationId a = Some orgId, \<lambda>a. acc_type a = ORG] 1"

definition listPersonalAccounts :: "Databases \<Rightarrow> string \<Rightarrow> BillingAccount DocumentList" where
  "listPersonalAccounts databases userId =
     listDocuments (billing_accounts databases)
       [\<lambda>a. acc_userId a = Some userId, \<lambda>a. acc_type a = PERSONAL] 1"

text \<open>
  \<open>getBillingAccount\<close>: the three priorities in the source's order. The \<open>try\<close>/\<open>catch\<close>
  around the whole body turns the one exception the body can raise (the workspace document
  is missing) into \<open>null\<close>, also when a \<open>userId\<close> was given.
\<close>

definition getBillingAccount :: "Databases \<Rightarrow> BillingLookupOptions \<Rightarrow> BillingAccount option" where
  "getBillingAccount databases options =
     (let priority3 =
        (case truthyStr (opt_userId options) of
           None \<Rightarrow> None
         | Some userId \<Rightarrow> firstDocument (listPersonalAccounts databases userId));
          priority2 =
        (case truthyStr (opt_workspaceId options) of
           None \<Rightarrow> priority3
         | Some workspaceId \<Rightarrow>
             (case getDocument (workspaces databases) ws_id workspaceId of
                Inl e \<Rightarrow> None
              | Inr workspace \<Rightarrow>
                  (case truthyStr (ws_organizationId workspace) of
                     Some orgId \<Rightarrow>
                       (case firstDocument (listOrgAccounts databases orgId) of
                          Some a \<Rightarrow> Some a
                        | None \<Rightarrow> priority3)
                   | None \<Rightarrow>
                       (case truthyStr (ws_userId workspace) of
                          Some userId \<Rightarrow>
                            (case firstDocument (listPersonalAccounts databases userId) of
                               Some a \<Rightarrow> Some a
                             | None \<Rightarrow> priority3)
                        | None \<Rightarrow> priority3))))
      in
        (case truthyStr (opt_organizationId options) of
           None \<Rightarrow> priority2
         | Some orgId \<Rightarrow>
             (case firstDocument (listOrgAccounts databases orgId) of
                Some a \<Rightarrow> Some a
              | None \<Rightarrow> priority2)))"

section \<open>Billing status assertions\<close>

definition assertBillingActive ::
  "Databases \<Rightarrow> BillingLookupOptions \<Rightarrow> exn + BillingAccount option" where
  "assertBillingActive databases options =
     (case getBillingAccount databases options of
        None \<Rightarrow> Inr None
      | Some account \<Rightarrow>
          if billingStatus account = SUSPENDED
          then Inl (BillingError BILLING_SUSPENDED (Some (acc_id account)) (Some (billingStatus account)))
          else if billingStatus account = DUE
          then Inl (BillingError BILLING_DUE (Some (acc_id account)) (Some (billingStatus account)))
          else Inr (Some account))"

definition assertBillingNotSuspended ::
  "Databases \<Rightarrow> BillingLookupOptions \<Rightarrow> exn + BillingAccount option" where
  "assertBillingNotSuspended databases options =
     (case getBillingAccount databases options of
        None \<Rightarrow> Inr None
      | Some account \<Rightarrow>
          if billingStatus account = SUSPENDED
          then Inl (BillingError BILLING_SUSPENDED (Some (acc_id account)) (Some (billingStatus account)))
          else Inr (Some account))"

section \<open>Billing cycle locking\<close>

record LockResult =
  success :: bool
  alreadyLocked :: bool
  lockedAt :: "string option"
  lock_error :: "exn option"

text \<open>
  \<open>lockBillingCycle\<close> run with no other writer between its store calls. \<open>lockTimestamp\<close>
  is the clock reading \<open>new Date().toISOString()\<close> the call starts with. The call returns
  its result and the store it leaves behind. Every exception is caught and reported in the
  result's \<open>error\<close>.
\<close>

definition lockBillingCycle :: "string \<Rightarrow> Databases \<Rightarrow> string \<Rightarrow> LockResult \<times> Databases" where
  "lockBillingCycle lockTimestamp databases billingAccountId =
     (case getDocument (billing_accounts databases) acc_id billingAccountId of
        Inl e \<Rightarrow>
          (\<lparr> success = False, alreadyLocked = False, lockedAt = None, lock_error = Some e \<rparr>,
           databases)
      | Inr account \<Rightarrow>
          if isBillingCycleLocked account = True
          then (\<lparr> success = False, alreadyLocked = True,
                  lockedAt = billingCycleLockedAt account, lock_error = None \<rparr>, databases)
          else
            (case updateDocument (billing_accounts databases) acc_id billingAccountId
                    (\<lambda>d. d\<lparr> isBillingCycleLocked := True,
                             billingCycleLockedAt := Some lockTimestamp \<rparr>) of
               Inl e \<Rightarrow>
                 (\<lparr> success = False, alreadyLocked = False, lockedAt = None,
                    lock_error = Some e \<rparr>, databases)
             | Inr accounts' \<Rightarrow>
                 (let databases' = databases\<lparr> billing_accounts := accounts' \<rparr> in
                  case getDocument (billing_accounts databases') acc_id billingAccountId of
                    Inl e \<Rightarrow>
                      (\<lparr> success = False, alreadyLocked = False, lockedAt = None,
                         lock_error = Some e \<rparr>, databases')
                  | Inr verifyAccount \<Rightarrow>
                      if billingCycleLockedAt verifyAccount \<noteq> Some lockTimestamp
                      then (\<lparr> success = False, alreadyLocked = True,
                              lockedAt = billingCycleLockedAt verifyAccount,
                              lock_error = None \<rparr>, databases')
                      else (\<lparr> success = True, alreadyLocked = False,
                              lockedAt = Some lockTimestamp, lock_error = None \<rparr>,
                            databases'))))"

section \<open>Usage write guards\<close>

record WriteUsageResult =
  wu_account :: "BillingAccount option"
  allowed :: bool

definition assertCanWriteUsage ::
  "Databases \<Rightarrow> BillingLookupOptions \<Rightarrow> exn + WriteUsageResult" where
  "assertCanWriteUsage databases options =
     (case assertBillingNotSuspended databases options of
        Inl e \<Rightarrow> Inl e
      | Inr None \<Rightarrow> Inr \<lparr> wu_account = None, allowed = True \<rparr>
      | Inr (Some account) \<Rightarrow>
          if isBillingCycleLocked account
          then Inl (BillingError BILLING_CYCLE_LOCKED (Some (acc_id account)) None)
          else Inr \<lparr> wu_account = Some account, allowed = True \<rparr>)"

text \<open>
  JavaScript's \<open>Date\<close>. A \<open>Date\<close> object holds a time value in milliseconds since the epoch,
  or NaN (an invalid date, \<open>None\<close>). What \<open>new Date(s)\<close> makes of a string and how
  \<open>toISOString\<close> prints a valid time value belong to the language, not to this
  repository: both are parameters. On an invalid date \<open>toISOString\<close> throws a RangeError,
  and every comparison with an invalid date is false.
\<close>

type_synonym Date = "int option"

record DateBuiltins =
  Date_parse :: "string \<Rightarrow> Date"
  Date_print :: "int \<Rightarrow> string"

definition toISOString :: "DateBuiltins \<Rightarrow> Date \<Rightarrow> exn + string" where
  "toISOString J d = (case d of None \<Rightarrow> Inl RangeError | Some t \<Rightarrow> Inr (Date_print J t))"

definition date_less :: "Date \<Rightarrow> Date \<Rightarrow> bool" where
  "date_less a b =
     (case a of None \<Rightarrow> False | Some x \<Rightarrow> (case b of None \<Rightarrow> False | Some y \<Rightarrow> x < y))"

datatype AdjustReason = LateEventToCycleStart string | FutureEventToNow string

record AdjustResult =
  timestamp :: string
  wasAdjusted :: bool
  adjustReason :: "AdjustReason option"

text \<open>
  \<open>adjustEventForLockedCycle\<close>; \<open>nowIso\<close> is \<open>new Date().toISOString()\<close> at the call.
\<close>

definition adjustEventForLockedCycle ::
  "DateBuiltins \<Rightarrow> string \<Rightarrow> string \<Rightarrow> BillingAccount option \<Rightarrow> exn + AdjustResult" where
  "adjustEventForLockedCycle J nowIso eventTimestamp account_opt =
     (case account_opt of
        None \<Rightarrow>
          Inr \<lparr> timestamp = eventTimestamp, wasAdjusted = False, adjustReason = None \<rparr>
      | Some account \<Rightarrow>
          (let eventDate = Date_parse J eventTimestamp;
               cycleEnd = Date_parse J (billingCycleEnd account);
               cycleStart = Date_parse J (billingCycleStart account)
           in
             if isBillingCycleLocked account \<and> date_less eventDate cycleStart
             then
               (case toISOString J cycleStart of
                  Inl e \<Rightarrow> Inl e
                | Inr s \<Rightarrow>
                    Inr \<lparr> timestamp = s, wasAdjusted = True,
                          adjustReason = Some (LateEventToCycleStart eventTimestamp) \<rparr>)
             else if date_less cycleEnd eventDate
             then Inr \<lparr> timestamp = nowIso, wasAdjusted = True,
                        adjustReason = Some (FutureEventToNow eventTimestamp) \<rparr>
             else Inr \<lparr> timestamp = eventTimestamp, wasAdjusted = False,
                        adjustReason = None \<rparr>))"

section \<open>Near-suspension warning detection\<close>

text \<open>
  JavaScript numbers, with NaN kept apart: \<open>getTime\<close> of an invalid date is NaN, NaN
  spreads through arithmetic, \<open>Math.max\<close> and \<open>Math.ceil\<close>, and every comparison with NaN
  is false. Finite values are real numbers: the thresholds the source compares against
  (0, 12 and 48 hours) are whole multiples of the divisor, so the rounding of the one
  division does not move a value across them. The source divides only by the constant
  \<open>1000 * 60 * 60\<close>; a zero divisor is not modelled.
\<close>

datatype number = Num real | NaN

definition getTime :: "Date \<Rightarrow> number" where
  "getTime d = (case d of None \<Rightarrow> NaN | Some t \<Rightarrow> Num (real_of_int t))"

fun num_minus :: "number \<Rightarrow> number \<Rightarrow> number" where
  "num_minus (Num a) (Num b) = Num (a - b)"
| "num_minus _ _ = NaN"

fun num_divide :: "number \<Rightarrow> number \<Rightarrow> number" where
  "num_divide (Num a) (Num b) = Num (a / b)"
| "num_divide _ _ = NaN"

fun Math_max :: "number \<Rightarrow> number \<Rightarrow> number" where
  "Math_max (Num a) (Num b) = Num (max a b)"
| "Math_max _ _ = NaN"

fun Math_ceil :: "number \<Rightarrow> number" where
  "Math_ceil (Num a) = Num (real_of_int \<lceil>a\<rceil>)"
| "Math_ceil NaN = NaN"

fun num_le :: "number \<Rightarrow> number \<Rightarrow> bool" where
  "num_le (Num a) (Num b) = (a \<le> b)"
| "num_le _ _ = False"

definition NEAR_SUSPENSION_THRESHOLD_HOURS :: number where
  "NEAR_SUSPENSION_THRESHOLD_HOURS = Num 48"

datatype WarningState = W_NORMAL | W_WARNING | W_CRITICAL | W_SUSPENDED

text \<open>The five message texts; the two templates carry the number they print.\<close>

datatype WarningMessage =
    MsgAccountSuspended
  | MsgGracePeriodExpired
  | MsgUrgentSuspendedIn number
  | MsgHoursBeforeSuspension number
  | MsgUnpaidInvoice

record AccountWarningState =
  state :: WarningState
  hoursRemaining :: "number option"
  aws_gracePeriodEnd :: "string option"
  message :: "WarningMessage option"

text \<open>\<open>getAccountWarningState\<close>; \<open>now\<close> is the time value of \<open>new Date()\<close> at the call.\<close>

definition getAccountWarningState ::
  "DateBuiltins \<Rightarrow> int \<Rightarrow> BillingAccount option \<Rightarrow> AccountWarningState" where
  "getAccountWarningState J now account_opt =
     (let normal = \<lparr> state = W_NORMAL, hoursRemaining = None, aws_gracePeriodEnd = None,
                      message = None \<rparr>
      in
      case account_opt of
        None \<Rightarrow> normal
      | Some account \<Rightarrow>
          if billingStatus account = SUSPENDED
          then \<lparr> state = W_SUSPENDED, hoursRemaining = None, aws_gracePeriodEnd = None,
                 message = Some MsgAccountSuspended \<rparr>
          else
            (case truthyStr (gracePeriodEnd account) of
               None \<Rightarrow> normal
             | Some gpe \<Rightarrow>
                 if billingStatus account = DUE
                 then
                   (let gracePeriodEndDate = Date_parse J gpe;
                        hours =
                          Math_max (Num 0)
                            (num_divide
                               (num_minus (getTime gracePeriodEndDate) (getTime (Some now)))
                               (Num (1000 * 60 * 60)))
                    in
                      if num_le hours (Num 0)
                      then \<lparr> state = W_CRITICAL, hoursRemaining = Some (Num 0),
                             aws_gracePeriodEnd = gracePeriodEnd account,
                             message = Some MsgGracePeriodExpired \<rparr>
                      else if num_le hours (Num 12)
                      then \<lparr> state = W_CRITICAL, hoursRemaining = Some (Math_ceil hours),
                             aws_gracePeriodEnd = gracePeriodEnd account,
                             message = Some (MsgUrgentSuspendedIn (Math_ceil hours)) \<rparr>
                      else if num_le hours NEAR_SUSPENSION_THRESHOLD_HOURS
                      then \<lparr> state = W_WARNING, hoursRemaining = Some (Math_ceil hours),
                             aws_gracePeriodEnd = gracePeriodEnd account,
                             message = Some (MsgHoursBeforeSuspension (Math_ceil hours)) \<rparr>
                      else \<lparr> state = W_WARNING, hoursRemaining = Some (Math_ceil hours),
                             aws_gracePeriodEnd = gracePeriodEnd account,
                             message = Some MsgUnpaidInvoice \<rparr>)
                 else normal))"

section \<open>Double-precision arithmetic\<close>

text \<open>
  The numbers of the alert job and of the reconciliation are JavaScript doubles. A finite
  double is kept as the real number it stands for, and every arithmetic operation rounds
  its exact result to the nearest double, ties to the even significand: 53 significant
  bits, exponents from -1022, below which the spacing stays \<open>2^-1074\<close>. Overflow to
  Infinity and NaN operands are not modelled. Comparisons and \<open>Math.abs\<close> are exact.
\<close>

definition pow2 :: "int \<Rightarrow> real" where
  "pow2 k = (if 0 \<le> k then 2 ^ nat k else 1 / 2 ^ nat (- k))"

definition roundTiesToEven :: "real \<Rightarrow> int" where
  "roundTiesToEven y =
     (let f = \<lfloor>y\<rfloor>; r = y - of_int f in
      if r < 1 / 2 then f
      else if 1 / 2 < r then f + 1
      else if even f then f else f + 1)"

definition double_exponent :: "real \<Rightarrow> int" where
  "double_exponent x = max \<lfloor>log 2 \<bar>x\<bar>\<rfloor> (- 1022)"

definition toDouble :: "real \<Rightarrow> real" where
  "toDouble x =
     (if x = 0 then 0
      else (let q = pow2 (double_exponent x - 52) in q * of_int (roundTiesToEven (x / q))))"

definition dadd :: "real \<Rightarrow> real \<Rightarrow> real" where
  "dadd a b = toDouble (a + b)"

definition dsub :: "real \<Rightarrow> real \<Rightarrow> real" where
  "dsub a b = toDouble (a - b)"

definition dmul :: "real \<Rightarrow> real \<Rightarrow> real" where
  "dmul a b = toDouble (a * b)"

definition ddiv :: "real \<Rightarrow> real \<Rightarrow> real" where
  "ddiv a b = toDouble (a / b)"

text \<open>The loop \<open>total = 0; for (x of xs) total += x\<close>.\<close>

definition dsum :: "real list \<Rightarrow> real" where
  "dsum xs = fold (\<lambda>x total. dadd total x) xs 0"

text \<open>The literal \<open>0.01\<close>, the default tolerance: the double nearest to one hundredth.\<close>

definition double_0_01 :: real where
  "double_0_01 = 5764607523034235 / 576460752303423488"

section \<open>Calendar builtins of Date\<close>

text \<open>
  The calendar methods of \<open>Date\<close> that the alert job and the reconciliation call work in
  the server's local time zone, which belongs to the environment: they are parameters.
  \<open>Date_getFullYear\<close> and \<open>Date_getMonth\<close> read a time value's local year and month
  index (0 to 11); \<open>Date_fromFields y m d\<close> is \<open>new Date(y, m, d)\<close>, local midnight, with
  the constructor's own carrying of month and day; \<open>Date_setMonth t m\<close> is the time value
  after \<open>setMonth(m)\<close> on a date of time value \<open>t\<close>; \<open>Date_parseDay\<close> is
  \<open>new Date(period + "-01")\<close> for a period \<open>YYYY-MM\<close> kept as (year, month);
  \<open>Date_fields\<close> is \<open>toISOString\<close> on a valid time value, the string kept as its fields
  because the store compares it with timestamps.
\<close>

record CalendarBuiltins =
  Date_getFullYear :: "int \<Rightarrow> int"
  Date_getMonth :: "int \<Rightarrow> int"
  Date_fromFields :: "int \<Rightarrow> int \<Rightarrow> int \<Rightarrow> Date"
  Date_setMonth :: "int \<Rightarrow> int \<Rightarrow> Date"
  Date_parseDay :: "nat \<times> nat \<Rightarrow> Date"
  Date_fields :: "int \<Rightarrow> IsoTime"

text \<open>\<open>d.toISOString()\<close> on a date that may be invalid.\<close>

definition toISOFields :: "CalendarBuiltins \<Rightarrow> Date \<Rightarrow> exn + IsoTime" where
  "toISOFields K d = (case d of None \<Rightarrow> Inl RangeError | Some t \<Rightarrow> Inr (Date_fields K t))"

text \<open>
  \<open>d.setMonth(d.getMonth() + 1)\<close>: on an invalid date \<open>getMonth\<close> is NaN and the date
  stays invalid.
\<close>

definition setNextMonth :: "CalendarBuiltins \<Rightarrow> Date \<Rightarrow> Date" where
  "setNextMonth K d =
     (case d of None \<Rightarrow> None | Some t \<Rightarrow> Date_setMonth K t (Date_getMonth K t + 1))"

section \<open>Alert evaluation job (lib/alert-evaluation-job.ts)\<close>

text \<open>\<open>a || b\<close> on an optional number: \<open>b\<close> when \<open>a\<close> is undefined or 0.\<close>

definition orElse :: "real option \<Rightarrow> real \<Rightarrow> real" where
  "orElse a b = (case a of None \<Rightarrow> b | Some v \<Rightarrow> if v = 0 then b else v)"

text \<open>
  \<open>getCurrentMonthUsage\<close>; \<open>now\<close> is the time value of \<open>new Date()\<close> at the call. The
  two \<open>toISOString\<close> calls throw on an invalid date, before the store is queried.
\<close>

definition getCurrentMonthUsage ::
  "CalendarBuiltins \<Rightarrow> int \<Rightarrow> Databases \<Rightarrow> string \<Rightarrow> ResourceType \<Rightarrow> exn + real" where
  "getCurrentMonthUsage K now databases workspaceId resourceType =
     (case toISOFields K
             (Date_fromFields K (Date_getFullYear K now) (Date_getMonth K now) 1) of
        Inl e \<Rightarrow> Inl e
      | Inr startOfMonth \<Rightarrow>
          (case toISOFields K
                  (Date_fromFields K (Date_getFullYear K now) (Date_getMonth K now + 1) 0) of
             Inl e \<Rightarrow> Inl e
           | Inr endOfMonth \<Rightarrow>
               (let events =
                      listDocuments (usage_events databases)
                        [\<lambda>e. ev_workspaceId e = workspaceId,
                         \<lambda>e. ev_resourceType e = resourceType,
                         \<lambda>e. iso_le startOfMonth (ev_timestamp e),
                         \<lambda>e. iso_le (ev_timestamp e) endOfMonth]
                        10000;
                    total =
                      fold (\<lambda>event total.
                              if resourceType = COMPUTE
                              then dadd total (orElse (weightedUnits event) (units event))
                              else dadd total (units event))
                           (dl_documents events) 0
                in
                  Inr (if resourceType = TRAFFIC \<or> resourceType = STORAGE
                       then ddiv total (1024 * 1024 * 1024)
                       else total))))"

text \<open>
  \<open>sendInAppNotification\<close>: the in-memory \<open>createDocument\<close> cannot fail, so the
  \<open>catch\<close> branch (\<open>return false\<close>) has no counterpart.
\<close>

definition sendInAppNotification ::
  "CalendarBuiltins \<Rightarrow> int \<Rightarrow> Databases \<Rightarrow> string \<Rightarrow> UsageAlert \<Rightarrow> real
     \<Rightarrow> bool \<times> Databases" where
  "sendInAppNotification K now databases workspaceId alert currentUsage =
     (True,
      databases\<lparr> notifications := notifications databases @
        [\<lparr> ntf_workspaceId = workspaceId,
           ntf_resourceType = alert_resourceType alert,
           ntf_currentUsage = currentUsage,
           ntf_threshold = threshold alert,
           ntf_isRead = False,
           ntf_createdAt = Date_fields K now,
           ntf_userId = None \<rparr>] \<rparr>)"

text \<open>
  \<open>sendWebhookNotification\<close>; \<open>fetch url\<close> is \<open>response.ok\<close> of the POST, or \<open>None\<close>
  when \<open>fetch\<close> throws. The second component lists the POSTs the call made.
\<close>

definition sendWebhookNotification ::
  "CalendarBuiltins \<Rightarrow> (string \<Rightarrow> bool option) \<Rightarrow> int \<Rightarrow> UsageAlert \<Rightarrow> real
     \<Rightarrow> bool \<times> WebhookPost list" where
  "sendWebhookNotification K fetch now alert currentUsage =
     (case truthyStr (webhookUrl alert) of
        None \<Rightarrow> (False, [])
      | Some url \<Rightarrow>
          (let post = \<lparr> post_url = url, post_alertId = alert_id alert,
                        post_workspaceId = alert_workspaceId alert,
                        post_resourceType = alert_resourceType alert,
                        post_threshold = threshold alert,
                        post_currentUsage = currentUsage,
                        post_triggeredAt = Date_fields K now \<rparr>
           in case fetch url of
                None \<Rightarrow> (False, [post])
              | Some ok \<Rightarrow> (ok, [post])))"

datatype EvaluationError = AccountSuspendedSkipping | Caught exn

record AlertEvaluationResult =
  res_alertId :: string
  res_workspaceId :: string
  res_resourceType :: ResourceType
  res_threshold :: real
  currentUsage :: real
  triggered :: bool
  notificationSent :: bool
  res_error :: "EvaluationError option"

text \<open>
  \<open>evaluateAlert\<close> returns its result, the store it leaves behind and the webhook POSTs
  it made. Its body can raise the RangeError of \<open>getCurrentMonthUsage\<close> and the store's
  exception when the alert document to stamp is missing; the \<open>catch\<close> records either in
  the result, which keeps the fields set so far.
\<close>

definition evaluateAlert ::
  "CalendarBuiltins \<Rightarrow> (string \<Rightarrow> bool option) \<Rightarrow> int \<Rightarrow> Databases \<Rightarrow> UsageAlert
     \<Rightarrow> AlertEvaluationResult \<times> Databases \<times> WebhookPost list" where
  "evaluateAlert K fetch now databases alert =
     (let result = \<lparr> res_alertId = alert_id alert,
                      res_workspaceId = alert_workspaceId alert,
                      res_resourceType = alert_resourceType alert,
                      res_threshold = threshold alert,
                      currentUsage = 0, triggered = False, notificationSent = False,
                      res_error = None \<rparr>;
          account = getBillingAccount databases
                      \<lparr> opt_userId = None, opt_organizationId = None,
                        opt_workspaceId = Some (alert_workspaceId alert) \<rparr>
      in
        if map_option billingStatus account = Some SUSPENDED
        then (result\<lparr> res_error := Some AccountSuspendedSkipping \<rparr>, databases, [])
        else
          (case getCurrentMonthUsage K now databases (alert_workspaceId alert)
                  (alert_resourceType alert) of
             Inl e \<Rightarrow> (result\<lparr> res_error := Some (Caught e) \<rparr>, databases, [])
           | Inr usage \<Rightarrow>
          (let result1 = result\<lparr> currentUsage := usage \<rparr>
           in
             if currentUsage result1 \<ge> threshold alert
             then
               (let result2 = result1\<lparr> triggered := True \<rparr>;
                    (sent, databases', posts) =
                      (case alertType alert of
                         in_app \<Rightarrow>
                           (let (ok, db') = sendInAppNotification K now databases
                                  (alert_workspaceId alert) alert (currentUsage result2)
                            in (ok, db', []))
                       | webhook \<Rightarrow>
                           (let (ok, ps) = sendWebhookNotification K fetch now alert
                                  (currentUsage result2)
                            in (ok, databases, ps))
                       | email \<Rightarrow>
                           (let (ok, db') = sendInAppNotification K now databases
                                  (alert_workspaceId alert) alert (currentUsage result2)
                            in (ok, db', [])));
                    result3 = result2\<lparr> notificationSent := sent \<rparr>
                in
                  if notificationSent result3
                  then
                    (case updateDocument (usage_alerts databases') alert_id (alert_id alert)
                            (\<lambda>d. d\<lparr> lastTriggeredAt := Some (Date_fields K now) \<rparr>) of
                       Inl e \<Rightarrow> (result3\<lparr> res_error := Some (Caught e) \<rparr>, databases', posts)
                     | Inr alerts' \<Rightarrow>
                         (result3, databases'\<lparr> usage_alerts := alerts' \<rparr>, posts))
                  else (result3, databases', posts))
             else (result1, databases, []))))"

section \<open>Aggregation reconciliation (the invariant checker)\<close>

record Diff =
  diff_trafficGB :: real
  diff_storageGB :: real
  diff_computeUnits :: real

record MatchResult =
  matches :: bool
  diff :: "Diff option"

text \<open>\<open>x || 1\<close> on a number.\<close>

definition orOne :: "real \<Rightarrow> real" where
  "orOne x = (if x = 0 then 1 else x)"

text \<open>
  The loop of \<open>assertAggregationMatchesEvents\<close>: bytes of traffic, bytes of storage,
  compute units. The strings \<open>traffic\<close>, \<open>storage\<close> and \<open>compute\<close> the loop switches on
  are taken to be the values of the \<open>ResourceType\<close> enum.
\<close>

definition sumEvents :: "UsageEvent list \<Rightarrow> real \<times> real \<times> real" where
  "sumEvents events =
     fold (\<lambda>event (trafficBytes, storageBytes, computeUnits).
             case ev_resourceType event of
               TRAFFIC \<Rightarrow> (dadd trafficBytes (units event), storageBytes, computeUnits)
             | STORAGE \<Rightarrow> (trafficBytes, dadd storageBytes (units event), computeUnits)
             | COMPUTE \<Rightarrow> (trafficBytes, storageBytes,
                            dadd computeUnits (orElse (weightedUnits event) (units event))))
          events (0, 0, 0)"

text \<open>
  \<open>assertAggregationMatchesEvents\<close>. The lower bound of the query is the template string
  \<open>period-01T00:00:00.000Z\<close>, that is the fields (year, month, 1, 0); the upper bound is
  \<open>toISOString\<close> of the date \<open>new Date(period + "-01")\<close> moved on by one month with
  \<open>setMonth\<close>, and throws when that date is invalid. The \<open>catch\<close> turns that RangeError and
  the store's exception for a missing aggregation into \<open>{matches: false}\<close>.
\<close>

definition assertAggregationMatchesEvents ::
  "CalendarBuiltins \<Rightarrow> Databases \<Rightarrow> string \<Rightarrow> real \<Rightarrow> MatchResult" where
  "assertAggregationMatchesEvents K databases aggregationId tolerancePercent =
     (case getDocument (usage_aggregations databases) agg_id aggregationId of
        Inl e \<Rightarrow> \<lparr> matches = False, diff = None \<rparr>
      | Inr aggregation \<Rightarrow>
          (let workspaceId = agg_workspaceId aggregation;
               startOfMonth = (fst (period aggregation), snd (period aggregation), 1, 0);
               nextMonth = setNextMonth K (Date_parseDay K (period aggregation))
           in
             case toISOFields K nextMonth of
               Inl e \<Rightarrow> \<lparr> matches = False, diff = None \<rparr>
             | Inr endOfMonth \<Rightarrow>
                 (let events =
                        listDocuments (usage_events databases)
                          [\<lambda>e. ev_workspaceId e = workspaceId,
                           \<lambda>e. iso_le startOfMonth (ev_timestamp e),
                           \<lambda>e. iso_lt (ev_timestamp e) endOfMonth]
                          10000;
                      (trafficBytes, storageBytes, computeUnits) =
                        sumEvents (dl_documents events);
                      expectedTrafficGB = ddiv trafficBytes (1024 * 1024 * 1024);
                      expectedStorageGB = ddiv storageBytes (1024 * 1024 * 1024);
                      d = \<lparr> diff_trafficGB =
                              \<bar>dsub (trafficTotalGB aggregation) expectedTrafficGB\<bar>,
                            diff_storageGB =
                              \<bar>dsub (storageAvgGB aggregation) expectedStorageGB\<bar>,
                            diff_computeUnits =
                              \<bar>dsub (computeTotalUnits aggregation) computeUnits\<bar> \<rparr>;
                      maxTrafficDiff = dmul (orOne (trafficTotalGB aggregation)) tolerancePercent;
                      maxStorageDiff = dmul (orOne (storageAvgGB aggregation)) tolerancePercent;
                      maxComputeDiff =
                        dmul (orOne (computeTotalUnits aggregation)) tolerancePercent
                  in
                    \<lparr> matches =
                        (diff_trafficGB d \<le> maxTrafficDiff
                         \<and> diff_storageGB d \<le> maxStorageDiff
                         \<and> diff_computeUnits d \<le> maxComputeDiff),
                      diff = Some d \<rparr>)))"

section \<open>Status transition validation\<close>


fun VALID_STATUS_TRANSITIONS :: "BillingStatus \<Rightarrow> BillingStatus list" where
  "VALID_STATUS_TRANSITIONS ACTIVE = [DUE]"
| "VALID_STATUS_TRANSITIONS DUE = [ACTIVE, SUSPENDED]"
| "VALID_STATUS_TRANSITIONS SUSPENDED = [ACTIVE]"

definition assertValidStatusTransition :: "BillingStatus \<Rightarrow> BillingStatus \<Rightarrow> exn + unit" where
  "assertValidStatusTransition from_status to_status =
     (if from_status = to_status then Inr ()
      else
        (let validTargets = VALID_STATUS_TRANSITIONS from_status in
         if to_status \<notin> set validTargets
         then Inl (InvalidTransition from_status to_status validTargets)
         else Inr ()))"


section \<open>Example data\<close>

text \<open>
  A small store and a table of dates, used to run the functions on concrete inputs: one
  organisation account, its workspace \<open>ws1\<close>, and the dates of the January 2024 cycle
  with their time values; further down, the calendar of a server in UTC, a clock reading in
  March 2024, and usage events, an alert and an aggregation of that month.
\<close>

definition exAccount :: BillingAccount where
  "exAccount =
     \<lparr> acc_id = ''acct1'', acc_type = ORG, acc_userId = None,
       acc_organizationId = Some ''org1'', billingStatus = ACTIVE,
       billingCycleStart = ''2024-01-01'', billingCycleEnd = ''2024-01-31'',
       isBillingCycleLocked = False, billingCycleLockedAt = None, gracePeriodEnd = None \<rparr>"

definition exStore :: "BillingAccount \<Rightarrow> Databases" where
  "exStore a =
     \<lparr> billing_accounts = [a],
       workspaces = [\<lparr> ws_id = ''ws1'', ws_organizationId = Some ''org1'', ws_userId = None \<rparr>],
       usage_events = [], usage_aggregations = [], usage_alerts = [], notifications = [] \<rparr>"

definition byWorkspace :: "string \<Rightarrow> BillingLookupOptions" where
  "byWorkspace w = \<lparr> opt_userId = None, opt_organizationId = None, opt_workspaceId = Some w \<rparr>"

definition exDates :: DateBuiltins where
  "exDates =
     \<lparr> Date_parse = map_of
         [(''2023-12-31T23:00:00.000Z'', 1704063600000),
          (''2024-01-01'', 1704067200000),
          (''2024-01-01T00:00:00.000Z'', 1704067200000),
          (''2024-01-15'', 1705276800000),
          (''2024-01-31'', 1706659200000),
          (''2024-02-02'', 1706832000000)],
       Date_print = (\<lambda>t. if t = 1704067200000 then ''2024-01-01T00:00:00.000Z'' else ''other'') \<rparr>"

text \<open>
  The calendar builtins of a server whose time zone is UTC, by the day-count arithmetic of
  the proleptic Gregorian calendar: days since 1970-01-01 from a civil date and back.
\<close>

definition daysFromCivil :: "int \<Rightarrow> int \<Rightarrow> int \<Rightarrow> int" where
  "daysFromCivil y m d =
     (let y' = (if m \<le> 2 then y - 1 else y);
          era = y' div 400;
          yoe = y' - era * 400;
          doy = (153 * (if 2 < m then m - 3 else m + 9) + 2) div 5 + d - 1;
          doe = yoe * 365 + yoe div 4 - yoe div 100 + doy
      in era * 146097 + doe - 719468)"

definition civilFromDays :: "int \<Rightarrow> int \<times> int \<times> int" where
  "civilFromDays z0 =
     (let z = z0 + 719468;
          era = z div 146097;
          doe = z - era * 146097;
          yoe = (doe - doe div 1460 + doe div 36524 - doe div 146096) div 365;
          y = yoe + era * 400;
          doy = doe - (365 * yoe + yoe div 4 - yoe div 100);
          mp = (5 * doy + 2) div 153;
          d = doy - (153 * mp + 2) div 5 + 1;
          m = (if mp < 10 then mp + 3 else mp - 9)
      in (if m \<le> 2 then y + 1 else y, m, d))"

text \<open>A time value beyond 8.64e15 milliseconds either side of the epoch is an invalid date.\<close>

definition timeClip :: "int \<Rightarrow> Date" where
  "timeClip t = (if \<bar>t\<bar> \<le> 8640000000000000 then Some t else None)"

text \<open>
  The constructor reads a year from 0 to 99 as 1900 plus that year; \<open>Date_fields\<close> is
  given for the years 0 to 9999, which \<open>toISOString\<close> prints with four digits.
\<close>

definition utcCalendar :: CalendarBuiltins where
  "utcCalendar =
     \<lparr> Date_getFullYear = (\<lambda>t. fst (civilFromDays (t div 86400000))),
       Date_getMonth = (\<lambda>t. fst (snd (civilFromDays (t div 86400000))) - 1),
       Date_fromFields =
         (\<lambda>y m d. timeClip
                    ((daysFromCivil ((if 0 \<le> y \<and> y \<le> 99 then 1900 + y else y) + m div 12)
                        (m mod 12 + 1) 1 + d - 1) * 86400000)),
       Date_setMonth =
         (\<lambda>t m. case civilFromDays (t div 86400000) of
                   (y, _, d) \<Rightarrow>
                     timeClip ((daysFromCivil (y + m div 12) (m mod 12 + 1) 1 + d - 1) * 86400000
                               + t mod 86400000)),
       Date_parseDay =
         (\<lambda>p. if 1 \<le> snd p \<and> snd p \<le> 12 \<and> fst p \<le> 9999
              then Some (daysFromCivil (int (fst p)) (int (snd p)) 1 * 86400000)
              else None),
       Date_fields =
         (\<lambda>t. case civilFromDays (t div 86400000) of
                 (y, m, d) \<Rightarrow> (nat y, nat m, nat d, nat (t mod 86400000))) \<rparr>"

text \<open>The clock reading 2024-03-15T00:00:00.000Z.\<close>

definition exNow :: int where
  "exNow = 1710460800000"

definition exEvent :: UsageEvent where
  "exEvent =
     \<lparr> ev_workspaceId = ''ws1'', ev_resourceType = COMPUTE, units = 500,
       weightedUnits = None, ev_timestamp = (2024, 3, 10, 0) \<rparr>"

definition exEventStore :: "UsageEvent list \<Rightarrow> Databases" where
  "exEventStore evs = (exStore exAccount)\<lparr> usage_events := evs \<rparr>"

definition exAlert :: UsageAlert where
  "exAlert =
     \<lparr> alert_id = ''alert1'', alert_workspaceId = ''ws1'', alert_resourceType = COMPUTE,
       threshold = 100, alertType = in_app, webhookUrl = None, isEnabled = True,
       lastTriggeredAt = None \<rparr>"

definition exAlertStore :: "BillingAccount \<Rightarrow> Databases" where
  "exAlertStore a = (exStore a)\<lparr> usage_events := [exEvent], usage_alerts := [exAlert] \<rparr>"

definition exAggregation :: "real \<Rightarrow> real \<Rightarrow> UsageAggregation" where
  "exAggregation traffic compute =
     \<lparr> agg_id = ''agg1'', agg_workspaceId = ''ws1'', period = (2024, 3),
       trafficTotalGB = traffic, storageAvgGB = 0, computeTotalUnits = compute \<rparr>"

definition exTraffic :: "real \<Rightarrow> UsageEvent" where
  "exTraffic bytes =
     \<lparr> ev_workspaceId = ''ws1'', ev_resourceType = TRAFFIC, units = bytes,
       weightedUnits = None, ev_timestamp = (2024, 3, 10, 0) \<rparr>"

definition exAggStore :: "UsageAggregation \<Rightarrow> UsageEvent list \<Rightarrow> Databases" where
  "exAggStore aggregation evs =
     (exStore exAccount)\<lparr> usage_events := evs, usage_aggregations := [aggregation] \<rparr>"

section \<open>The wording of two claims, as definitions\<close>

text \<open>
  The claim's words for the current month's usage: the sum over all events of the workspace
  and resource type whose timestamp has the clock's year and month; \<open>weightedUnits\<close> when
  present.
\<close>

definition spec_inCurrentMonth :: "CalendarBuiltins \<Rightarrow> int \<Rightarrow> IsoTime \<Rightarrow> bool" where
  "spec_inCurrentMonth K now ts =
     (int (fst ts) = Date_getFullYear K now \<and> int (fst (snd ts)) = Date_getMonth K now + 1)"

definition spec_currentMonthUsage ::
  "CalendarBuiltins \<Rightarrow> int \<Rightarrow> Databases \<Rightarrow> string \<Rightarrow> ResourceType \<Rightarrow> real" where
  "spec_currentMonthUsage K now databases workspaceId resourceType =
     (let events =
            filter (\<lambda>e. ev_workspaceId e = workspaceId \<and> ev_resourceType e = resourceType
                      \<and> spec_inCurrentMonth K now (ev_timestamp e))
              (usage_events databases)
      in
        if resourceType = COMPUTE
        then (\<Sum>e\<leftarrow>events. (case weightedUnits e of Some w \<Rightarrow> w | None \<Rightarrow> units e))
        else (\<Sum>e\<leftarrow>events. units e) / (1024 * 1024 * 1024))"

text \<open>
  The claim's words for the reconciliation: totals recomputed from all events of the
  aggregation's workspace and period, each within \<open>storedValue * tolerance\<close> of the stored
  value.
\<close>

definition spec_inPeriod :: "nat \<times> nat \<Rightarrow> IsoTime \<Rightarrow> bool" where
  "spec_inPeriod p ts = (fst ts = fst p \<and> fst (snd ts) = snd p)"

definition spec_aggregationMatches :: "Databases \<Rightarrow> UsageAggregation \<Rightarrow> real \<Rightarrow> bool" where
  "spec_aggregationMatches databases aggregation tolerance =
     (let events =
            filter (\<lambda>e. ev_workspaceId e = agg_workspaceId aggregation
                      \<and> spec_inPeriod (period aggregation) (ev_timestamp e))
              (usage_events databases);
          traffic = (\<Sum>e\<leftarrow>filter (\<lambda>e. ev_resourceType e = TRAFFIC) events. units e)
                      / (1024 * 1024 * 1024);
          storage = (\<Sum>e\<leftarrow>filter (\<lambda>e. ev_resourceType e = STORAGE) events. units e)
                      / (1024 * 1024 * 1024);
          compute = (\<Sum>e\<leftarrow>filter (\<lambda>e. ev_resourceType e = COMPUTE) events.
                       (case weightedUnits e of Some w \<Rightarrow> w | None \<Rightarrow> units e))
      in
        \<bar>trafficTotalGB aggregation - traffic\<bar> \<le> trafficTotalGB aggregation * tolerance
        \<and> \<bar>storageAvgGB aggregation - storage\<bar> \<le> storageAvgGB aggregation * tolerance
        \<and> \<bar>computeTotalUnits aggregation - compute\<bar> \<le> computeTotalUnits aggregation * tolerance)"

section \<open>Properties\<close>

subsection \<open>Status transitions\<close>

text \<open>
  C1. For every pair of billing statuses, \<open>assertValidStatusTransition\<close> returns without
  error exactly when the target equals the source or is an allowed target of the source in
  the table ACTIVE to DUE, DUE to ACTIVE or SUSPENDED, SUSPENDED to ACTIVE; for every other
  pair it throws, in particular for ACTIVE to SUSPENDED and SUSPENDED to DUE.
\<close>

theorem C1_transition_legality:
  "(assertValidStatusTransition from_status to_status = Inr ()) =
     (to_status = from_status
      \<or> (from_status = ACTIVE \<and> to_status = DUE)
      \<or> (from_status = DUE \<and> (to_status = ACTIVE \<or> to_status = SUSPENDED))
      \<or> (from_status = SUSPENDED \<and> to_status = ACTIVE))
   \<and> ((\<exists>e. assertValidStatusTransition from_status to_status = Inl e) =
        (assertValidStatusTransition from_status to_status \<noteq> Inr ()))
   \<and> (\<exists>e. assertValidStatusTransition ACTIVE SUSPENDED = Inl e)
   \<and> (\<exists>e. assertValidStatusTransition SUSPENDED DUE = Inl e)"
  by (cases from_status; cases to_status)
     (simp_all add: assertValidStatusTransition_def)

theorem C1_transition_legality_witness:
  "assertValidStatusTransition DUE SUSPENDED = Inr ()
   \<and> assertValidStatusTransition ACTIVE SUSPENDED \<noteq> Inr ()"
  using C1_transition_legality [of DUE SUSPENDED] C1_transition_legality [of ACTIVE SUSPENDED]
  by simp

subsection \<open>The store\<close>

lemma find_updateFirst:
  assumes "updateFirst (\<lambda>d. idOf d = i) f ds = Some ds'"
      and "\<And>d. idOf (f d) = idOf d"
  shows "find (\<lambda>d. idOf d = i) ds' = map_option f (find (\<lambda>d. idOf d = i) ds)"
  using assms
proof (induction ds arbitrary: ds')
  case Nil
  then show ?case by simp
next
  case (Cons d ds)
  show ?case
  proof (cases "idOf d = i")
    case True
    with Cons.prems show ?thesis by auto
  next
    case False
    with Cons.prems obtain ds'' where u: "updateFirst (\<lambda>d. idOf d = i) f ds = Some ds''"
      and e: "ds' = d # ds''"
      by (auto split: option.splits)
    from Cons.IH [OF u Cons.prems(2)] False e show ?thesis by simp
  qed
qed

lemma updateFirst_found:
  "find P ds = Some a \<Longrightarrow> \<exists>ds'. updateFirst P f ds = Some ds'"
  by (induction ds) (auto split: if_splits)

lemma getDocument_Inr_iff:
  "(getDocument c idOf i = Inr a) = (find (\<lambda>d. idOf d = i) c = Some a)"
  by (simp add: getDocument_def split: option.splits)

lemma ex_lookup:
  "acc_organizationId a = Some ''org1'' \<Longrightarrow> acc_type a = ORG \<Longrightarrow>
   getBillingAccount (exStore a) (byWorkspace ''ws1'') = Some a"
  by (simp add: getBillingAccount_def exStore_def byWorkspace_def truthyStr_def getDocument_def
        firstDocument_def listOrgAccounts_def listDocuments_def)

lemma ex_lookup_none:
  "getBillingAccount (exStore a) (byWorkspace ''ws2'') = None"
  by (simp add: getBillingAccount_def exStore_def byWorkspace_def truthyStr_def getDocument_def
        firstDocument_def listOrgAccounts_def listDocuments_def)

subsection \<open>Cycle lock\<close>

lemma lock_first:
  assumes "getDocument (billing_accounts db) acc_id i = Inr a"
      and "\<not> isBillingCycleLocked a"
  shows "\<exists>accs. updateDocument (billing_accounts db) acc_id i
            (\<lambda>d. d\<lparr> isBillingCycleLocked := True, billingCycleLockedAt := Some T \<rparr>) = Inr accs
         \<and> getDocument accs acc_id i = Inr (a\<lparr> isBillingCycleLocked := True, billingCycleLockedAt := Some T \<rparr>)
         \<and> lockBillingCycle T db i =
             (\<lparr> success = True, alreadyLocked = False, lockedAt = Some T, lock_error = None \<rparr>,
              db\<lparr> billing_accounts := accs \<rparr>)"
proof -
  let ?f = "\<lambda>d. d\<lparr> isBillingCycleLocked := True, billingCycleLockedAt := Some T \<rparr>"
  from assms(1) have fa: "find (\<lambda>d. acc_id d = i) (billing_accounts db) = Some a"
    by (simp add: getDocument_Inr_iff)
  from updateFirst_found [OF fa] obtain accs where
    u: "updateFirst (\<lambda>d. acc_id d = i) ?f (billing_accounts db) = Some accs" by blast
  have "find (\<lambda>d. acc_id d = i) accs = map_option ?f (find (\<lambda>d. acc_id d = i) (billing_accounts db))"
    by (rule find_updateFirst [OF u]) simp
  with fa have g: "getDocument accs acc_id i = Inr (?f a)"
    by (simp add: getDocument_Inr_iff)
  from u have ud: "updateDocument (billing_accounts db) acc_id i ?f = Inr accs"
    by (simp add: updateDocument_def)
  have "lockBillingCycle T db i =
     (\<lparr> success = True, alreadyLocked = False, lockedAt = Some T, lock_error = None \<rparr>,
      db\<lparr> billing_accounts := accs \<rparr>)"
    using assms ud g by (simp add: lockBillingCycle_def)
  with ud g show ?thesis by blast
qed

text \<open>
  C2. For every billing account that is initially unlocked, two calls of
  \<open>lockBillingCycle\<close> in sequence, with no other writer, give success with \<open>lockedAt\<close>
  the first call's timestamp \<open>T\<close>, and then \<open>alreadyLocked\<close> without success, with
  \<open>lockedAt\<close> again \<open>T\<close>; the second call leaves the store as the first one left it.
\<close>

theorem C2_lock_idempotence:
  assumes "getDocument (billing_accounts db) acc_id i = Inr a"
      and "\<not> isBillingCycleLocked a"
  shows "fst (lockBillingCycle T db i) =
           \<lparr> success = True, alreadyLocked = False, lockedAt = Some T, lock_error = None \<rparr>
         \<and> fst (lockBillingCycle T' (snd (lockBillingCycle T db i)) i) =
           \<lparr> success = False, alreadyLocked = True, lockedAt = Some T, lock_error = None \<rparr>
         \<and> snd (lockBillingCycle T' (snd (lockBillingCycle T db i)) i) =
           snd (lockBillingCycle T db i)"
proof -
  from lock_first [OF assms, of T] obtain accs where
    g: "getDocument accs acc_id i =
          Inr (a\<lparr> isBillingCycleLocked := True, billingCycleLockedAt := Some T \<rparr>)"
    and l: "lockBillingCycle T db i =
             (\<lparr> success = True, alreadyLocked = False, lockedAt = Some T, lock_error = None \<rparr>,
              db\<lparr> billing_accounts := accs \<rparr>)"
    by blast
  have "lockBillingCycle T' (db\<lparr> billing_accounts := accs \<rparr>) i =
          (\<lparr> success = False, alreadyLocked = True, lockedAt = Some T, lock_error = None \<rparr>,
           db\<lparr> billing_accounts := accs \<rparr>)"
    using g by (simp add: lockBillingCycle_def)
  with l show ?thesis by simp
qed

theorem C2_lock_idempotence_witness:
  "getDocument (billing_accounts (exStore exAccount)) acc_id ''acct1'' = Inr exAccount
   \<and> \<not> isBillingCycleLocked exAccount
   \<and> fst (lockBillingCycle ''2024-02-01T00:00:00.000Z'' (exStore exAccount) ''acct1'') =
       \<lparr> success = True, alreadyLocked = False,
         lockedAt = Some ''2024-02-01T00:00:00.000Z'', lock_error = None \<rparr>
   \<and> fst (lockBillingCycle ''2024-02-01T00:00:05.000Z''
            (snd (lockBillingCycle ''2024-02-01T00:00:00.000Z'' (exStore exAccount) ''acct1''))
            ''acct1'') =
       \<lparr> success = False, alreadyLocked = True,
         lockedAt = Some ''2024-02-01T00:00:00.000Z'', lock_error = None \<rparr>"
proof -
  have g: "getDocument (billing_accounts (exStore exAccount)) acc_id ''acct1'' = Inr exAccount"
    by (simp add: getDocument_def exStore_def exAccount_def)
  have u: "\<not> isBillingCycleLocked exAccount"
    by (simp add: exAccount_def)
  from C2_lock_idempotence [OF g u, of "''2024-02-01T00:00:00.000Z''" "''2024-02-01T00:00:05.000Z''"]
  show ?thesis using g u by simp
qed

subsection \<open>Status assertions and the usage write guard\<close>

text \<open>
  C3. \<open>assertBillingActive\<close> throws a \<open>BillingError\<close> with code BILLING_SUSPENDED exactly
  when the resolved account is SUSPENDED and with code BILLING_DUE exactly when it is DUE,
  and returns the account when it is ACTIVE. \<open>assertBillingNotSuspended\<close> throws, always with
  code BILLING_SUSPENDED, exactly when the resolved account is SUSPENDED, and otherwise
  returns the account (DUE included). When no account resolves, both return \<open>null\<close>
  without throwing.
\<close>

theorem C3_status_assertions:
  "((\<exists>e. assertBillingActive db opts = Inl e \<and> errorCode e = Some BILLING_SUSPENDED) =
      (\<exists>a. getBillingAccount db opts = Some a \<and> billingStatus a = SUSPENDED))
   \<and> ((\<exists>e. assertBillingActive db opts = Inl e \<and> errorCode e = Some BILLING_DUE) =
      (\<exists>a. getBillingAccount db opts = Some a \<and> billingStatus a = DUE))
   \<and> ((\<exists>e. assertBillingActive db opts = Inl e) =
      (\<exists>a. getBillingAccount db opts = Some a \<and> billingStatus a \<noteq> ACTIVE))
   \<and> (getBillingAccount db opts = Some a \<and> billingStatus a = ACTIVE
        \<longrightarrow> assertBillingActive db opts = Inr (Some a))
   \<and> ((\<exists>e. assertBillingNotSuspended db opts = Inl e) =
      (\<exists>a. getBillingAccount db opts = Some a \<and> billingStatus a = SUSPENDED))
   \<and> (\<forall>e. assertBillingNotSuspended db opts = Inl e \<longrightarrow> errorCode e = Some BILLING_SUSPENDED)
   \<and> (getBillingAccount db opts = Some a \<and> billingStatus a \<noteq> SUSPENDED
        \<longrightarrow> assertBillingNotSuspended db opts = Inr (Some a))
   \<and> (getBillingAccount db opts = None
        \<longrightarrow> assertBillingActive db opts = Inr None
          \<and> assertBillingNotSuspended db opts = Inr None)"
proof (cases "getBillingAccount db opts")
  case None
  then show ?thesis
    by (simp add: assertBillingActive_def assertBillingNotSuspended_def)
next
  case (Some b)
  then show ?thesis
    by (cases "billingStatus b")
       (simp_all add: assertBillingActive_def assertBillingNotSuspended_def)
qed

theorem C3_status_assertions_witness:
  "getBillingAccount (exStore (exAccount\<lparr>billingStatus := SUSPENDED\<rparr>)) (byWorkspace ''ws1'')
     = Some (exAccount\<lparr>billingStatus := SUSPENDED\<rparr>)
   \<and> (\<exists>e. assertBillingActive (exStore (exAccount\<lparr>billingStatus := SUSPENDED\<rparr>))
              (byWorkspace ''ws1'') = Inl e \<and> errorCode e = Some BILLING_SUSPENDED)
   \<and> (\<exists>e. assertBillingNotSuspended (exStore (exAccount\<lparr>billingStatus := SUSPENDED\<rparr>))
              (byWorkspace ''ws1'') = Inl e)
   \<and> getBillingAccount (exStore (exAccount\<lparr>billingStatus := DUE\<rparr>)) (byWorkspace ''ws1'')
     = Some (exAccount\<lparr>billingStatus := DUE\<rparr>)
   \<and> (\<exists>e. assertBillingActive (exStore (exAccount\<lparr>billingStatus := DUE\<rparr>))
              (byWorkspace ''ws1'') = Inl e \<and> errorCode e = Some BILLING_DUE)
   \<and> assertBillingNotSuspended (exStore (exAccount\<lparr>billingStatus := DUE\<rparr>))
        (byWorkspace ''ws1'') = Inr (Some (exAccount\<lparr>billingStatus := DUE\<rparr>))
   \<and> getBillingAccount (exStore exAccount) (byWorkspace ''ws1'') = Some exAccount
   \<and> assertBillingActive (exStore exAccount) (byWorkspace ''ws1'') = Inr (Some exAccount)
   \<and> getBillingAccount (exStore exAccount) (byWorkspace ''ws2'') = None
   \<and> assertBillingActive (exStore exAccount) (byWorkspace ''ws2'') = Inr None
   \<and> assertBillingNotSuspended (exStore exAccount) (byWorkspace ''ws2'') = Inr None"
proof -
  let ?s = "exAccount\<lparr>billingStatus := SUSPENDED\<rparr>"
  let ?d = "exAccount\<lparr>billingStatus := DUE\<rparr>"
  have ls: "getBillingAccount (exStore ?s) (byWorkspace ''ws1'') = Some ?s"
    by (rule ex_lookup) (simp_all add: exAccount_def)
  have ld: "getBillingAccount (exStore ?d) (byWorkspace ''ws1'') = Some ?d"
    by (rule ex_lookup) (simp_all add: exAccount_def)
  have la: "getBillingAccount (exStore exAccount) (byWorkspace ''ws1'') = Some exAccount"
    by (rule ex_lookup) (simp_all add: exAccount_def)
  have ln: "getBillingAccount (exStore exAccount) (byWorkspace ''ws2'') = None"
    by (rule ex_lookup_none)
  have ss: "billingStatus ?s = SUSPENDED" and sd: "billingStatus ?d = DUE"
    and sa: "billingStatus exAccount = ACTIVE"
    by (simp_all add: exAccount_def)
  from C3_status_assertions [of "exStore ?s" "byWorkspace ''ws1''" ?s]
       C3_status_assertions [of "exStore ?d" "byWorkspace ''ws1''" ?d]
       C3_status_assertions [of "exStore exAccount" "byWorkspace ''ws1''" exAccount]
       C3_status_assertions [of "exStore exAccount" "byWorkspace ''ws2''" exAccount]
  show ?thesis using ls ld la ln ss sd sa by simp
qed

text \<open>
  C4. \<open>assertCanWriteUsage\<close> first applies \<open>assertBillingNotSuspended\<close>, whose error it
  passes on; then, if the resolved account has \<open>isBillingCycleLocked\<close> set, it throws a
  \<open>BillingError\<close> with code BILLING_CYCLE_LOCKED, and otherwise allows the write. When no
  account resolves it returns \<open>{account: null, allowed: true}\<close>.
\<close>

theorem C4_usage_write_guard:
  "(\<forall>e. assertBillingNotSuspended db opts = Inl e \<longrightarrow> assertCanWriteUsage db opts = Inl e)
   \<and> (assertBillingNotSuspended db opts = Inr (Some a) \<and> isBillingCycleLocked a
        \<longrightarrow> assertCanWriteUsage db opts =
              Inl (BillingError BILLING_CYCLE_LOCKED (Some (acc_id a)) None))
   \<and> (assertBillingNotSuspended db opts = Inr (Some a) \<and> \<not> isBillingCycleLocked a
        \<longrightarrow> assertCanWriteUsage db opts = Inr \<lparr> wu_account = Some a, allowed = True \<rparr>)
   \<and> (getBillingAccount db opts = None
        \<longrightarrow> assertCanWriteUsage db opts = Inr \<lparr> wu_account = None, allowed = True \<rparr>)"
  by (auto simp add: assertCanWriteUsage_def assertBillingNotSuspended_def
        split: option.splits sum.splits)

theorem C4_usage_write_guard_witness:
  "assertBillingNotSuspended (exStore (exAccount\<lparr>isBillingCycleLocked := True\<rparr>))
       (byWorkspace ''ws1'') = Inr (Some (exAccount\<lparr>isBillingCycleLocked := True\<rparr>))
   \<and> assertCanWriteUsage (exStore (exAccount\<lparr>isBillingCycleLocked := True\<rparr>))
       (byWorkspace ''ws1'') = Inl (BillingError BILLING_CYCLE_LOCKED (Some ''acct1'') None)
   \<and> assertCanWriteUsage (exStore exAccount) (byWorkspace ''ws1'')
       = Inr \<lparr> wu_account = Some exAccount, allowed = True \<rparr>
   \<and> assertBillingNotSuspended (exStore (exAccount\<lparr>billingStatus := SUSPENDED\<rparr>))
       (byWorkspace ''ws1'')
       = Inl (BillingError BILLING_SUSPENDED (Some ''acct1'') (Some SUSPENDED))
   \<and> assertCanWriteUsage (exStore (exAccount\<lparr>billingStatus := SUSPENDED\<rparr>))
       (byWorkspace ''ws1'')
       = Inl (BillingError BILLING_SUSPENDED (Some ''acct1'') (Some SUSPENDED))
   \<and> getBillingAccount (exStore exAccount) (byWorkspace ''ws2'') = None
   \<and> assertCanWriteUsage (exStore exAccount) (byWorkspace ''ws2'')
       = Inr \<lparr> wu_account = None, allowed = True \<rparr>"
proof -
  let ?l = "exAccount\<lparr>isBillingCycleLocked := True\<rparr>"
  let ?s = "exAccount\<lparr>billingStatus := SUSPENDED\<rparr>"
  have ll: "getBillingAccount (exStore ?l) (byWorkspace ''ws1'') = Some ?l"
    by (rule ex_lookup) (simp_all add: exAccount_def)
  have ls: "getBillingAccount (exStore ?s) (byWorkspace ''ws1'') = Some ?s"
    by (rule ex_lookup) (simp_all add: exAccount_def)
  have la: "getBillingAccount (exStore exAccount) (byWorkspace ''ws1'') = Some exAccount"
    by (rule ex_lookup) (simp_all add: exAccount_def)
  have ln: "getBillingAccount (exStore exAccount) (byWorkspace ''ws2'') = None"
    by (rule ex_lookup_none)
  have nl: "assertBillingNotSuspended (exStore ?l) (byWorkspace ''ws1'') = Inr (Some ?l)"
    using ll by (simp add: assertBillingNotSuspended_def exAccount_def)
  have na: "assertBillingNotSuspended (exStore exAccount) (byWorkspace ''ws1'') = Inr (Some exAccount)"
    using la by (simp add: assertBillingNotSuspended_def exAccount_def)
  have ns: "assertBillingNotSuspended (exStore ?s) (byWorkspace ''ws1'')
              = Inl (BillingError BILLING_SUSPENDED (Some ''acct1'') (Some SUSPENDED))"
    using ls by (simp add: assertBillingNotSuspended_def exAccount_def)
  have f: "isBillingCycleLocked ?l" "\<not> isBillingCycleLocked exAccount" "acc_id ?l = ''acct1''"
    by (simp_all add: exAccount_def)
  from C4_usage_write_guard [of "exStore ?l" "byWorkspace ''ws1''" ?l]
       C4_usage_write_guard [of "exStore exAccount" "byWorkspace ''ws1''" exAccount]
       C4_usage_write_guard [of "exStore ?s" "byWorkspace ''ws1''" ?s]
       C4_usage_write_guard [of "exStore exAccount" "byWorkspace ''ws2''" exAccount]
  show ?thesis using nl na ns ln f by simp
qed

subsection \<open>Late events\<close>

lemma date_less_Some: "date_less a b \<Longrightarrow> \<exists>t. b = Some t"
  by (cases a; cases b) (simp_all add: date_less_def)

text \<open>
  C5. \<open>adjustEventForLockedCycle\<close> never throws. With no account the timestamp passes
  through with \<open>wasAdjusted\<close> false. If the cycle is locked and the event is before
  \<open>billingCycleStart\<close>, the result is \<open>billingCycleStart\<close> itself, printed by
  \<open>toISOString\<close>, with \<open>wasAdjusted\<close> true. Otherwise, if the event is after
  \<open>billingCycleEnd\<close>, the result is the current time with \<open>wasAdjusted\<close> true. Otherwise
  the timestamp is returned unchanged with \<open>wasAdjusted\<close> false.
\<close>

theorem C5_adjust_event:
  "(\<exists>r. adjustEventForLockedCycle J nowIso ts acc = Inr r)
   \<and> adjustEventForLockedCycle J nowIso ts None =
       Inr \<lparr> timestamp = ts, wasAdjusted = False, adjustReason = None \<rparr>
   \<and> (isBillingCycleLocked a \<and> date_less (Date_parse J ts) (Date_parse J (billingCycleStart a))
       \<longrightarrow> (\<exists>t. Date_parse J (billingCycleStart a) = Some t
               \<and> adjustEventForLockedCycle J nowIso ts (Some a) =
                   Inr \<lparr> timestamp = Date_print J t, wasAdjusted = True,
                         adjustReason = Some (LateEventToCycleStart ts) \<rparr>))
   \<and> (\<not> (isBillingCycleLocked a \<and> date_less (Date_parse J ts) (Date_parse J (billingCycleStart a)))
       \<and> date_less (Date_parse J (billingCycleEnd a)) (Date_parse J ts)
       \<longrightarrow> adjustEventForLockedCycle J nowIso ts (Some a) =
             Inr \<lparr> timestamp = nowIso, wasAdjusted = True,
                   adjustReason = Some (FutureEventToNow ts) \<rparr>)
   \<and> (\<not> (isBillingCycleLocked a \<and> date_less (Date_parse J ts) (Date_parse J (billingCycleStart a)))
       \<and> \<not> date_less (Date_parse J (billingCycleEnd a)) (Date_parse J ts)
       \<longrightarrow> adjustEventForLockedCycle J nowIso ts (Some a) =
             Inr \<lparr> timestamp = ts, wasAdjusted = False, adjustReason = None \<rparr>)"
proof -
  have never_throws: "\<exists>r. adjustEventForLockedCycle J nowIso ts acc = Inr r"
  proof (cases acc)
    case None
    then show ?thesis by (simp add: adjustEventForLockedCycle_def)
  next
    case (Some b)
    show ?thesis
    proof (cases "isBillingCycleLocked b \<and>
        date_less (Date_parse J ts) (Date_parse J (billingCycleStart b))")
      case True
      then obtain t where "Date_parse J (billingCycleStart b) = Some t"
        using date_less_Some by blast
      with True Some show ?thesis
        by (simp add: adjustEventForLockedCycle_def Let_def toISOString_def)
    next
      case False
      with Some show ?thesis
        by (auto simp add: adjustEventForLockedCycle_def Let_def)
    qed
  qed
  have late: "\<exists>t. Date_parse J (billingCycleStart a) = Some t
               \<and> adjustEventForLockedCycle J nowIso ts (Some a) =
                   Inr \<lparr> timestamp = Date_print J t, wasAdjusted = True,
                         adjustReason = Some (LateEventToCycleStart ts) \<rparr>"
    if h: "isBillingCycleLocked a \<and> date_less (Date_parse J ts) (Date_parse J (billingCycleStart a))"
  proof -
    from h obtain t where "Date_parse J (billingCycleStart a) = Some t"
      using date_less_Some by blast
    with h show ?thesis
      by (simp add: adjustEventForLockedCycle_def Let_def toISOString_def)
  qed
  show ?thesis
    using never_throws late
    by (simp add: adjustEventForLockedCycle_def Let_def)
qed

theorem C5_adjust_event_witness:
  "isBillingCycleLocked (exAccount\<lparr>isBillingCycleLocked := True\<rparr>)
   \<and> date_less (Date_parse exDates ''2023-12-31T23:00:00.000Z'')
        (Date_parse exDates (billingCycleStart (exAccount\<lparr>isBillingCycleLocked := True\<rparr>)))
   \<and> adjustEventForLockedCycle exDates ''2024-02-02'' ''2023-12-31T23:00:00.000Z''
        (Some (exAccount\<lparr>isBillingCycleLocked := True\<rparr>)) =
        Inr \<lparr> timestamp = ''2024-01-01T00:00:00.000Z'', wasAdjusted = True,
              adjustReason = Some (LateEventToCycleStart ''2023-12-31T23:00:00.000Z'') \<rparr>
   \<and> adjustEventForLockedCycle exDates ''2024-02-02'' ''2024-01-15''
        (Some (exAccount\<lparr>isBillingCycleLocked := True\<rparr>)) =
        Inr \<lparr> timestamp = ''2024-01-15'', wasAdjusted = False, adjustReason = None \<rparr>
   \<and> date_less (Date_parse exDates (billingCycleEnd (exAccount\<lparr>isBillingCycleLocked := True\<rparr>)))
        (Date_parse exDates ''2024-02-02'')
   \<and> adjustEventForLockedCycle exDates ''2024-02-02'' ''2024-02-02''
        (Some (exAccount\<lparr>isBillingCycleLocked := True\<rparr>)) =
        Inr \<lparr> timestamp = ''2024-02-02'', wasAdjusted = True,
              adjustReason = Some (FutureEventToNow ''2024-02-02'') \<rparr>"
proof -
  let ?a = "exAccount\<lparr>isBillingCycleLocked := True\<rparr>"
  have l: "isBillingCycleLocked ?a" by simp
  have s: "Date_parse exDates (billingCycleStart ?a) = Some 1704067200000"
    and e: "Date_parse exDates (billingCycleEnd ?a) = Some 1706659200000"
    and p1: "Date_parse exDates ''2023-12-31T23:00:00.000Z'' = Some 1704063600000"
    and p2: "Date_parse exDates ''2024-01-15'' = Some 1705276800000"
    and p3: "Date_parse exDates ''2024-02-02'' = Some 1706832000000"
    and pr: "Date_print exDates 1704067200000 = ''2024-01-01T00:00:00.000Z''"
    by (simp_all add: exDates_def exAccount_def)
  from C5_adjust_event [of exDates "''2024-02-02''" "''2023-12-31T23:00:00.000Z''" None ?a]
       C5_adjust_event [of exDates "''2024-02-02''" "''2024-01-15''" None ?a]
       C5_adjust_event [of exDates "''2024-02-02''" "''2024-02-02''" None ?a]
  show ?thesis
    unfolding s e p1 p2 p3 using l pr by (simp add: date_less_def)
qed

subsection \<open>Warning state\<close>

lemma warning_due:
  assumes "billingStatus a = DUE" "gracePeriodEnd a = Some g" "g \<noteq> []" "Date_parse J g = Some t"
  shows "getAccountWarningState J now (Some a) =
     (let hours = max 0 (real_of_int (t - now) / 3600000) in
      if hours \<le> 0
      then \<lparr> state = W_CRITICAL, hoursRemaining = Some (Num 0),
             aws_gracePeriodEnd = Some g, message = Some MsgGracePeriodExpired \<rparr>
      else if hours \<le> 12
      then \<lparr> state = W_CRITICAL, hoursRemaining = Some (Num (real_of_int \<lceil>hours\<rceil>)),
             aws_gracePeriodEnd = Some g,
             message = Some (MsgUrgentSuspendedIn (Num (real_of_int \<lceil>hours\<rceil>))) \<rparr>
      else if hours \<le> 48
      then \<lparr> state = W_WARNING, hoursRemaining = Some (Num (real_of_int \<lceil>hours\<rceil>)),
             aws_gracePeriodEnd = Some g,
             message = Some (MsgHoursBeforeSuspension (Num (real_of_int \<lceil>hours\<rceil>))) \<rparr>
      else \<lparr> state = W_WARNING, hoursRemaining = Some (Num (real_of_int \<lceil>hours\<rceil>)),
             aws_gracePeriodEnd = Some g, message = Some MsgUnpaidInvoice \<rparr>)"
  using assms
  by (simp add: getAccountWarningState_def truthyStr_def getTime_def Let_def
        NEAR_SUSPENSION_THRESHOLD_HOURS_def)

text \<open>
  C6. \<open>getAccountWarningState\<close> depends on the account only through \<open>billingStatus\<close>
  and \<open>gracePeriodEnd\<close> (and on the clock). SUSPENDED gives SUSPENDED; ACTIVE or no
  account gives NORMAL. For a DUE account whose \<open>gracePeriodEnd\<close> is a date, with
  \<open>hoursRemaining = max(0, hours from now to gracePeriodEnd)\<close>: at most 12 gives CRITICAL,
  more than 12 gives WARNING, an expired grace period gives CRITICAL and reports
  \<open>hoursRemaining\<close> 0; in particular \<open>now + 13h\<close> gives WARNING and \<open>now + 12h\<close> gives
  CRITICAL.
\<close>

theorem C6_warning_state:
  "state (getAccountWarningState J now None) = W_NORMAL
   \<and> (billingStatus a = SUSPENDED \<longrightarrow> state (getAccountWarningState J now (Some a)) = W_SUSPENDED)
   \<and> (billingStatus a = ACTIVE \<longrightarrow> state (getAccountWarningState J now (Some a)) = W_NORMAL)
   \<and> (billingStatus a = DUE \<and> gracePeriodEnd a = Some g \<and> g \<noteq> [] \<and> Date_parse J g = Some t
       \<longrightarrow> (max 0 (real_of_int (t - now) / 3600000) \<le> 12
              \<longrightarrow> state (getAccountWarningState J now (Some a)) = W_CRITICAL)
         \<and> (max 0 (real_of_int (t - now) / 3600000) > 12
              \<longrightarrow> state (getAccountWarningState J now (Some a)) = W_WARNING)
         \<and> (t \<le> now
              \<longrightarrow> state (getAccountWarningState J now (Some a)) = W_CRITICAL
                \<and> hoursRemaining (getAccountWarningState J now (Some a)) = Some (Num 0))
         \<and> (t = now + 13 * 3600000
              \<longrightarrow> state (getAccountWarningState J now (Some a)) = W_WARNING)
         \<and> (t = now + 12 * 3600000
              \<longrightarrow> state (getAccountWarningState J now (Some a)) = W_CRITICAL))
   \<and> (billingStatus a = billingStatus b \<and> gracePeriodEnd a = gracePeriodEnd b
       \<longrightarrow> getAccountWarningState J now (Some a) = getAccountWarningState J now (Some b))"
proof -
  have none: "state (getAccountWarningState J now None) = W_NORMAL"
    by (simp add: getAccountWarningState_def)
  have susp: "state (getAccountWarningState J now (Some a)) = W_SUSPENDED"
    if "billingStatus a = SUSPENDED"
    using that by (simp add: getAccountWarningState_def)
  have act: "state (getAccountWarningState J now (Some a)) = W_NORMAL"
    if "billingStatus a = ACTIVE"
    using that by (simp add: getAccountWarningState_def Let_def split: option.splits)
  have due: "(max 0 (real_of_int (t - now) / 3600000) \<le> 12
              \<longrightarrow> state (getAccountWarningState J now (Some a)) = W_CRITICAL)
         \<and> (max 0 (real_of_int (t - now) / 3600000) > 12
              \<longrightarrow> state (getAccountWarningState J now (Some a)) = W_WARNING)
         \<and> (t \<le> now
              \<longrightarrow> state (getAccountWarningState J now (Some a)) = W_CRITICAL
                \<and> hoursRemaining (getAccountWarningState J now (Some a)) = Some (Num 0))
         \<and> (t = now + 13 * 3600000
              \<longrightarrow> state (getAccountWarningState J now (Some a)) = W_WARNING)
         \<and> (t = now + 12 * 3600000
              \<longrightarrow> state (getAccountWarningState J now (Some a)) = W_CRITICAL)"
    if h: "billingStatus a = DUE \<and> gracePeriodEnd a = Some g \<and> g \<noteq> [] \<and> Date_parse J g = Some t"
  proof -
    from h have w: "getAccountWarningState J now (Some a) =
     (let hours = max 0 (real_of_int (t - now) / 3600000) in
      if hours \<le> 0
      then \<lparr> state = W_CRITICAL, hoursRemaining = Some (Num 0),
             aws_gracePeriodEnd = Some g, message = Some MsgGracePeriodExpired \<rparr>
      else if hours \<le> 12
      then \<lparr> state = W_CRITICAL, hoursRemaining = Some (Num (real_of_int \<lceil>hours\<rceil>)),
             aws_gracePeriodEnd = Some g,
             message = Some (MsgUrgentSuspendedIn (Num (real_of_int \<lceil>hours\<rceil>))) \<rparr>
      else if hours \<le> 48
      then \<lparr> state = W_WARNING, hoursRemaining = Some (Num (real_of_int \<lceil>hours\<rceil>)),
             aws_gracePeriodEnd = Some g,
             message = Some (MsgHoursBeforeSuspension (Num (real_of_int \<lceil>hours\<rceil>))) \<rparr>
      else \<lparr> state = W_WARNING, hoursRemaining = Some (Num (real_of_int \<lceil>hours\<rceil>)),
             aws_gracePeriodEnd = Some g, message = Some MsgUnpaidInvoice \<rparr>)"
      by (simp add: warning_due)
    have expired: "max 0 (real_of_int (t - now) / 3600000) \<le> 0" if "t \<le> now"
      using that by (simp add: divide_le_0_iff)
    show ?thesis
      unfolding w Let_def using expired by auto
  qed
  have same: "getAccountWarningState J now (Some a) = getAccountWarningState J now (Some b)"
    if "billingStatus a = billingStatus b \<and> gracePeriodEnd a = gracePeriodEnd b"
    using that by (simp add: getAccountWarningState_def Let_def cong: if_cong option.case_cong)
  show ?thesis
    using none susp act due same by blast
qed

theorem C6_warning_state_witness:
  "state (getAccountWarningState exDates (1705276800000 - 13 * 3600000)
       (Some (exAccount\<lparr>billingStatus := DUE, gracePeriodEnd := Some ''2024-01-15''\<rparr>))) = W_WARNING
   \<and> state (getAccountWarningState exDates (1705276800000 - 12 * 3600000)
       (Some (exAccount\<lparr>billingStatus := DUE, gracePeriodEnd := Some ''2024-01-15''\<rparr>))) = W_CRITICAL
   \<and> state (getAccountWarningState exDates (1705276800000 + 3600000)
       (Some (exAccount\<lparr>billingStatus := DUE, gracePeriodEnd := Some ''2024-01-15''\<rparr>))) = W_CRITICAL
   \<and> hoursRemaining (getAccountWarningState exDates (1705276800000 + 3600000)
       (Some (exAccount\<lparr>billingStatus := DUE, gracePeriodEnd := Some ''2024-01-15''\<rparr>))) = Some (Num 0)
   \<and> state (getAccountWarningState exDates 1705276800000
       (Some (exAccount\<lparr>billingStatus := SUSPENDED\<rparr>))) = W_SUSPENDED
   \<and> state (getAccountWarningState exDates 1705276800000 (Some exAccount)) = W_NORMAL"
proof -
  let ?d = "exAccount\<lparr>billingStatus := DUE, gracePeriodEnd := Some ''2024-01-15''\<rparr>"
  let ?s = "exAccount\<lparr>billingStatus := SUSPENDED\<rparr>"
  have d: "billingStatus ?d = DUE \<and> gracePeriodEnd ?d = Some ''2024-01-15'' \<and> ''2024-01-15'' \<noteq> []
           \<and> Date_parse exDates ''2024-01-15'' = Some 1705276800000"
    by (simp add: exDates_def)
  have s: "billingStatus ?s = SUSPENDED" and a: "billingStatus exAccount = ACTIVE"
    by (simp_all add: exAccount_def)
  from C6_warning_state [of exDates "1705276800000 - 13 * 3600000" ?d "''2024-01-15''" 1705276800000 ?d]
       C6_warning_state [of exDates "1705276800000 - 12 * 3600000" ?d "''2024-01-15''" 1705276800000 ?d]
       C6_warning_state [of exDates "1705276800000 + 3600000" ?d "''2024-01-15''" 1705276800000 ?d]
       C6_warning_state [of exDates 1705276800000 ?s "''2024-01-15''" 1705276800000 ?s]
       C6_warning_state [of exDates 1705276800000 exAccount "''2024-01-15''" 1705276800000 exAccount]
  show ?thesis using d s a by simp
qed

text \<open>
  C10. For every account with \<open>billingStatus\<close> DUE whose \<open>gracePeriodEnd\<close> is unset,
  \<open>getAccountWarningState\<close> returns \<open>{state: NORMAL}\<close>: no WARNING or CRITICAL is derived
  for it.
\<close>

theorem C10_due_without_grace_period:
  "billingStatus a = DUE \<and> gracePeriodEnd a = None
   \<longrightarrow> getAccountWarningState J now (Some a) =
         \<lparr> state = W_NORMAL, hoursRemaining = None, aws_gracePeriodEnd = None, message = None \<rparr>"
  by (simp add: getAccountWarningState_def truthyStr_def)

theorem C10_due_without_grace_period_witness:
  "billingStatus (exAccount\<lparr>billingStatus := DUE\<rparr>) = DUE
   \<and> gracePeriodEnd (exAccount\<lparr>billingStatus := DUE\<rparr>) = None
   \<and> state (getAccountWarningState exDates 1705276800000
        (Some (exAccount\<lparr>billingStatus := DUE\<rparr>))) = W_NORMAL"
proof -
  have h: "billingStatus (exAccount\<lparr>billingStatus := DUE\<rparr>) = DUE
           \<and> gracePeriodEnd (exAccount\<lparr>billingStatus := DUE\<rparr>) = None"
    by (simp add: exAccount_def)
  from C10_due_without_grace_period [of "exAccount\<lparr>billingStatus := DUE\<rparr>" exDates 1705276800000]
  show ?thesis using h by simp
qed

subsection \<open>Double-precision arithmetic\<close>

lemma pow2_powr: "pow2 k = 2 powr (real_of_int k)"
proof (cases "0 \<le> k")
  case True
  then have "real_of_int k = real (nat k)" by simp
  then have "2 powr (real_of_int k) = 2 powr (real (nat k))" by (rule arg_cong)
  also have "\<dots> = 2 ^ nat k" by (rule powr_realpow) simp
  finally show ?thesis using True unfolding pow2_def by (simp only: if_True)
next
  case False
  then have "real_of_int k = - real (nat (- k))" by simp
  then have "2 powr (real_of_int k) = 2 powr (- real (nat (- k)))" by (rule arg_cong)
  also have "\<dots> = 1 / 2 powr (real (nat (- k)))" by (rule powr_minus_divide)
  also have "2 powr (real (nat (- k))) = (2::real) ^ nat (- k)" by (rule powr_realpow) simp
  finally show ?thesis using False unfolding pow2_def by (simp only: if_False)
qed

lemma pow2_pos: "0 < pow2 k"
  by (simp add: pow2_powr)

lemma floor_log2_eq:
  assumes "x \<noteq> 0" "pow2 e \<le> \<bar>x\<bar>" "\<bar>x\<bar> < pow2 (e + 1)"
  shows "\<lfloor>log 2 \<bar>x\<bar>\<rfloor> = e"
proof -
  from assms(1) have p: "0 < \<bar>x\<bar>" by simp
  have "real_of_int e \<le> log 2 \<bar>x\<bar>"
    using assms(2) p by (simp add: le_log_iff pow2_powr)
  moreover have "log 2 \<bar>x\<bar> < real_of_int (e + 1)"
    using assms(3) p by (simp add: log_less_iff pow2_powr)
  ultimately show ?thesis by (simp add: floor_eq_iff)
qed

lemma toDouble_eval:
  assumes "x \<noteq> 0" "pow2 e \<le> \<bar>x\<bar>" "\<bar>x\<bar> < pow2 (e + 1)" "- 1022 \<le> e"
  shows "toDouble x = pow2 (e - 52) * of_int (roundTiesToEven (x / pow2 (e - 52)))"
proof -
  have "double_exponent x = e"
    unfolding double_exponent_def floor_log2_eq [OF assms(1-3)] using assms(4) by simp
  then show ?thesis
    unfolding toDouble_def Let_def using assms(1) by simp
qed

lemma roundTiesToEven_of_int: "roundTiesToEven (of_int j) = j"
  by (simp add: roundTiesToEven_def)

lemma toDouble_zero: "toDouble 0 = 0"
  by (simp add: toDouble_def)

lemma toDouble_of_int:
  assumes "\<bar>n\<bar> < 2 ^ 53"
  shows "toDouble (of_int n) = of_int n"
proof (cases "n = 0")
  case True
  then show ?thesis by (simp add: toDouble_def)
next
  case False
  define x where "x = real_of_int n"
  define e where "e = \<lfloor>log 2 \<bar>x\<bar>\<rfloor>"
  from False have x1: "1 \<le> \<bar>x\<bar>" unfolding x_def by linarith
  then have x0: "0 < \<bar>x\<bar>" by linarith
  have xu: "\<bar>x\<bar> < 2 ^ 53"
  proof -
    have "real_of_int \<bar>n\<bar> < real_of_int (2 ^ 53)" using assms by linarith
    then show ?thesis unfolding x_def by simp
  qed
  have "0 \<le> log 2 \<bar>x\<bar>" using x1 by simp
  then have e0: "0 \<le> e" unfolding e_def by simp
  have l53: "log 2 \<bar>x\<bar> < 53"
  proof -
    have "(2::real) powr 53 = 2 ^ 53" using powr_realpow [of 2 53] by simp
    with xu have "\<bar>x\<bar> < 2 powr 53" by simp
    with x0 show ?thesis using log_less_iff [of 2 "\<bar>x\<bar>" 53] by simp
  qed
  have e52: "e \<le> 52"
  proof -
    have "e < 53" unfolding e_def using l53 by (simp add: floor_less_iff)
    then show ?thesis by simp
  qed
  define k where "k = nat (52 - e)"
  have de: "double_exponent x = e" using e0 by (simp add: double_exponent_def e_def)
  have q: "pow2 (e - 52) = 1 / 2 ^ k"
  proof (cases "e = 52")
    case True
    then show ?thesis by (simp add: pow2_def k_def)
  next
    case False
    with e52 have "e - 52 < 0" by linarith
    then have "\<not> 0 \<le> e - 52" "- (e - 52) = 52 - e" by linarith+
    then show ?thesis unfolding pow2_def k_def by simp
  qed
  have "x / (1 / 2 ^ k) = of_int (n * 2 ^ k)" unfolding x_def by simp
  then have r: "roundTiesToEven (x / (1 / 2 ^ k)) = n * 2 ^ k"
    by (simp only: roundTiesToEven_of_int)
  from False have xn: "x \<noteq> 0" unfolding x_def by simp
  have "toDouble x = (1 / 2 ^ k) * of_int (roundTiesToEven (x / (1 / 2 ^ k)))"
    unfolding toDouble_def Let_def de q using xn by simp
  also have "\<dots> = (1 / 2 ^ k) * of_int (n * 2 ^ k)" unfolding r ..
  also have "\<dots> = x" unfolding x_def by simp
  finally show ?thesis unfolding x_def .
qed

lemma dadd_of_int:
  assumes "\<bar>a + b\<bar> < 2 ^ 53"
  shows "dadd (of_int a) (of_int b) = of_int (a + b)"
proof -
  have "dadd (of_int a) (of_int b) = toDouble (of_int (a + b))"
    unfolding dadd_def by simp
  then show ?thesis using toDouble_of_int [OF assms] by simp
qed

lemma fold_dadd_replicate:
  assumes "0 \<le> a" "0 \<le> c" "a + int n * c < 2 ^ 53"
  shows "fold (\<lambda>x total. dadd total x) (replicate n (of_int c)) (of_int a)
           = of_int (a + int n * c)"
  using assms
proof (induction n arbitrary: a)
  case 0
  then show ?case by simp
next
  case (Suc n)
  have le: "a + c \<le> a + int (Suc n) * c"
  proof -
    have "0 \<le> int n * c" using Suc.prems(2) by simp
    then show ?thesis by (simp add: algebra_simps)
  qed
  with Suc.prems have "\<bar>a + c\<bar> < 2 ^ 53" by simp
  then have step: "dadd (of_int a) (of_int c) = of_int (a + c)" by (rule dadd_of_int)
  have "a + c + int n * c = a + int (Suc n) * c" by (simp add: algebra_simps)
  with Suc.prems have "0 \<le> a + c" "a + c + int n * c < 2 ^ 53" by simp_all
  from Suc.IH [OF this(1) Suc.prems(2) this(2)] step show ?case
    by (simp add: algebra_simps)
qed

lemma dsum_replicate:
  assumes "0 \<le> c" "int n * c < 2 ^ 53"
  shows "dsum (replicate n (of_int c)) = of_int (int n * c)"
  unfolding dsum_def using fold_dadd_replicate [of 0 c n] assms by simp

lemma dsum_Nil: "dsum [] = 0"
  by (simp add: dsum_def)

lemma fold_dadd_map:
  "fold (\<lambda>event total. dadd total (g event)) events a
     = fold (\<lambda>x total. dadd total x) (map g events) a"
  by (induction events arbitrary: a) simp_all

lemma dsum_map:
  "fold (\<lambda>event total. dadd total (g event)) events 0 = dsum (map g events)"
  unfolding dsum_def by (rule fold_dadd_map)

lemma ex_sums:
  "dadd 0 500 = 500" "dadd 500 7 = 507"
  using dadd_of_int [of 0 500] dadd_of_int [of 500 7] by simp_all

lemma ex_dadd:
  "dadd 0 107911053312 = 107911053312"
  "dadd 0 109521666048 = 109521666048"
  "dadd 0 1048576 = 1048576"
  "dadd 0 30 = 30"
  using dadd_of_int [of 0 107911053312] dadd_of_int [of 0 109521666048]
    dadd_of_int [of 0 1048576] dadd_of_int [of 0 30]
  by simp_all

lemma ex_ddiv:
  "ddiv 107911053312 1073741824 = 201 / 2"
  "ddiv 109521666048 1073741824 = 102"
  "ddiv 1048576 1073741824 = 1 / 1024"
  "ddiv 0 1073741824 = 0"
proof -
  show "ddiv 107911053312 1073741824 = 201 / 2"
    unfolding ddiv_def
    by (subst toDouble_eval [where e = 6]) (simp_all add: pow2_def roundTiesToEven_def)
  show "ddiv 109521666048 1073741824 = 102"
    unfolding ddiv_def using toDouble_of_int [of 102] by simp
  show "ddiv 1048576 1073741824 = 1 / 1024"
    unfolding ddiv_def
    by (subst toDouble_eval [where e = "- 10"]) (simp_all add: pow2_def roundTiesToEven_def)
  show "ddiv 0 1073741824 = 0"
    unfolding ddiv_def by (simp add: toDouble_zero)
qed

lemma ex_dsub:
  "dsub 100 (201 / 2) = - (1 / 2)"
  "dsub 100 102 = - 2"
  "dsub 0 (1 / 1024) = - (1 / 1024)"
  "dsub 0 0 = 0"
  "dsub 1 0 = 1"
proof -
  show "dsub 100 (201 / 2) = - (1 / 2)"
    unfolding dsub_def
    by (subst toDouble_eval [where e = "- 1"]) (simp_all add: pow2_def roundTiesToEven_def)
  show "dsub 100 102 = - 2"
    unfolding dsub_def using toDouble_of_int [of "- 2"] by simp
  show "dsub 0 (1 / 1024) = - (1 / 1024)"
    unfolding dsub_def
    by (subst toDouble_eval [where e = "- 10"]) (simp_all add: pow2_def roundTiesToEven_def)
  show "dsub 0 0 = 0"
    unfolding dsub_def by (simp add: toDouble_zero)
  show "dsub 1 0 = 1"
    unfolding dsub_def using toDouble_of_int [of 1] by simp
qed

lemma ex_dmul:
  "dmul 100 double_0_01 = 1"
  "dmul 1 double_0_01 = double_0_01"
proof -
  show "dmul 100 double_0_01 = 1"
    unfolding dmul_def double_0_01_def
    by (subst toDouble_eval [where e = 0]) (simp_all add: pow2_def roundTiesToEven_def)
  show "dmul 1 double_0_01 = double_0_01"
    unfolding dmul_def double_0_01_def
    by (subst toDouble_eval [where e = "- 7"]) (simp_all add: pow2_def roundTiesToEven_def)
qed

lemma ex_tolerance:
  "(0::real) \<le> double_0_01" "1 \<le> double_0_01 * 1024" "\<not> 1 \<le> double_0_01"
  by (simp_all add: double_0_01_def)

lemma ex_rounding_doubles:
  "dadd 30 (5404319552844595 / 18014398509481984) = 8528691794332877 / 281474976710656"
  "dsub 30 (8528691794332877 / 281474976710656) = - (84442493013197 / 281474976710656)"
  "dmul 30 double_0_01 = 5404319552844595 / 18014398509481984"
proof -
  show "dadd 30 (5404319552844595 / 18014398509481984) = 8528691794332877 / 281474976710656"
    unfolding dadd_def
    by (subst toDouble_eval [where e = 4]) (simp_all add: pow2_def roundTiesToEven_def)
  show "dsub 30 (8528691794332877 / 281474976710656) = - (84442493013197 / 281474976710656)"
    unfolding dsub_def
    by (subst toDouble_eval [where e = "- 2"]) (simp_all add: pow2_def roundTiesToEven_def)
  show "dmul 30 double_0_01 = 5404319552844595 / 18014398509481984"
    unfolding dmul_def double_0_01_def
    by (subst toDouble_eval [where e = "- 2"]) (simp_all add: pow2_def roundTiesToEven_def)
qed

subsection \<open>The calendar of a UTC server\<close>

lemma ex_calendar_now:
  "Date_getFullYear utcCalendar exNow = 2024"
  "Date_getMonth utcCalendar exNow = 2"
  "Date_fields utcCalendar exNow = (2024, 3, 15, 0)"
  by code_simp+

lemma ex_calendar_window:
  "Date_fromFields utcCalendar 2024 2 1 = Some 1709251200000"
  "Date_fromFields utcCalendar 2024 (2 + 1) 0 = Some 1711843200000"
  "Date_fields utcCalendar 1709251200000 = (2024, 3, 1, 0)"
  "Date_fields utcCalendar 1711843200000 = (2024, 3, 31, 0)"
  by code_simp+

lemma ex_calendar_window3:
  "Date_fromFields utcCalendar 2024 3 0 = Some 1711843200000"
  by code_simp

lemma ex_calendar_period:
  "Date_parseDay utcCalendar (2024, 3) = Some 1709251200000"
  "Date_getMonth utcCalendar 1709251200000 = 2"
  "Date_setMonth utcCalendar 1709251200000 3 = Some 1711929600000"
  "Date_fields utcCalendar 1711929600000 = (2024, 4, 1, 0)"
  by code_simp+

subsection \<open>Alert evaluation\<close>

lemma listDocuments_documents:
  "dl_documents (listDocuments c qs n) = take n (filter (\<lambda>d. list_all (\<lambda>q. q d) qs) c)"
  by (simp add: listDocuments_def Let_def)

lemma getCurrentMonthUsage_window:
  assumes "Date_fromFields K (Date_getFullYear K now) (Date_getMonth K now) 1 = Some s"
      and "Date_fromFields K (Date_getFullYear K now) (Date_getMonth K now + 1) 0 = Some e"
  shows "getCurrentMonthUsage K now databases workspaceId resourceType =
     Inr (let events =
                take 10000
                  (filter (\<lambda>ev. ev_workspaceId ev = workspaceId
                             \<and> ev_resourceType ev = resourceType
                             \<and> iso_le (Date_fields K s) (ev_timestamp ev)
                             \<and> iso_le (ev_timestamp ev) (Date_fields K e))
                     (usage_events databases))
          in
            if resourceType = COMPUTE
            then dsum (map (\<lambda>ev. case weightedUnits ev of
                                    None \<Rightarrow> units ev
                                  | Some w \<Rightarrow> if w = 0 then units ev else w) events)
            else ddiv (dsum (map units events)) (1024 * 1024 * 1024))"
proof (cases "resourceType = COMPUTE")
  case True
  then show ?thesis
    using assms
    by (simp add: getCurrentMonthUsage_def toISOFields_def listDocuments_documents dsum_map
          Let_def orElse_def)
next
  case False
  then have "resourceType = TRAFFIC \<or> resourceType = STORAGE"
    by (cases resourceType) simp_all
  with False show ?thesis
    using assms
    by (simp add: getCurrentMonthUsage_def toISOFields_def listDocuments_documents dsum_map
          Let_def)
qed

lemma ex_inCurrentMonth:
  "spec_inCurrentMonth utcCalendar exNow ts = (fst ts = 2024 \<and> fst (snd ts) = 3)"
  unfolding spec_inCurrentMonth_def ex_calendar_now by auto

lemma ex_limit_window:
  "getCurrentMonthUsage utcCalendar exNow databases workspaceId resourceType =
     Inr (let events =
                take 10000
                  (filter (\<lambda>ev. ev_workspaceId ev = workspaceId
                             \<and> ev_resourceType ev = resourceType
                             \<and> iso_le (2024, 3, 1, 0) (ev_timestamp ev)
                             \<and> iso_le (ev_timestamp ev) (2024, 3, 31, 0))
                     (usage_events databases))
          in
            if resourceType = COMPUTE
            then dsum (map (\<lambda>ev. case weightedUnits ev of
                                    None \<Rightarrow> units ev
                                  | Some w \<Rightarrow> if w = 0 then units ev else w) events)
            else ddiv (dsum (map units events)) (1024 * 1024 * 1024))"
proof -
  have s: "Date_fromFields utcCalendar (Date_getFullYear utcCalendar exNow)
       (Date_getMonth utcCalendar exNow) 1 = Some 1709251200000"
    unfolding ex_calendar_now by (rule ex_calendar_window)
  have e: "Date_fromFields utcCalendar (Date_getFullYear utcCalendar exNow)
       (Date_getMonth utcCalendar exNow + 1) 0 = Some 1711843200000"
    unfolding ex_calendar_now by (rule ex_calendar_window)
  show ?thesis
    unfolding getCurrentMonthUsage_window [OF s e] ex_calendar_window ..
qed

text \<open>
  C8, as amended. \<open>getCurrentMonthUsage\<close> returns the sum over the current calendar
  month's usage events of the workspace and resource type, cut at the first 10000 of them in
  the store's order and added in double precision. For COMPUTE an event counts its
  \<open>weightedUnits\<close> when that is present and not 0, else its \<open>units\<close>; for TRAFFIC and
  STORAGE the byte sum of \<open>units\<close> is divided by \<open>1024 * 1024 * 1024\<close>. This is stated for
  the stores in which the events of that workspace and type inside the window the function
  queries are exactly those of the current calendar month; a store with an event of the
  month outside that window is outside the statement.
\<close>

theorem C8_current_month_usage:
  assumes "Date_fromFields K (Date_getFullYear K now) (Date_getMonth K now) 1 = Some s"
      and "Date_fromFields K (Date_getFullYear K now) (Date_getMonth K now + 1) 0 = Some e"
      and "\<forall>ev \<in> set (usage_events databases).
             ev_workspaceId ev = workspaceId \<and> ev_resourceType ev = resourceType \<longrightarrow>
             (iso_le (Date_fields K s) (ev_timestamp ev)
                \<and> iso_le (ev_timestamp ev) (Date_fields K e))
             = spec_inCurrentMonth K now (ev_timestamp ev)"
  shows "getCurrentMonthUsage K now databases workspaceId resourceType =
     Inr (let events =
                take 10000
                  (filter (\<lambda>ev. ev_workspaceId ev = workspaceId
                             \<and> ev_resourceType ev = resourceType
                             \<and> spec_inCurrentMonth K now (ev_timestamp ev))
                     (usage_events databases))
          in
            if resourceType = COMPUTE
            then dsum (map (\<lambda>ev. case weightedUnits ev of
                                    None \<Rightarrow> units ev
                                  | Some w \<Rightarrow> if w = 0 then units ev else w) events)
            else ddiv (dsum (map units events)) (1024 * 1024 * 1024))"
proof -
  have "filter (\<lambda>ev. ev_workspaceId ev = workspaceId \<and> ev_resourceType ev = resourceType
                  \<and> iso_le (Date_fields K s) (ev_timestamp ev)
                  \<and> iso_le (ev_timestamp ev) (Date_fields K e))
          (usage_events databases)
        = filter (\<lambda>ev. ev_workspaceId ev = workspaceId \<and> ev_resourceType ev = resourceType
                    \<and> spec_inCurrentMonth K now (ev_timestamp ev))
            (usage_events databases)"
    using assms(3) by (intro filter_cong) auto
  then show ?thesis
    unfolding getCurrentMonthUsage_window [OF assms(1,2)] by simp
qed

theorem C8_current_month_usage_witness:
  "Date_fromFields utcCalendar (Date_getFullYear utcCalendar exNow)
       (Date_getMonth utcCalendar exNow) 1 = Some 1709251200000
   \<and> Date_fromFields utcCalendar (Date_getFullYear utcCalendar exNow)
       (Date_getMonth utcCalendar exNow + 1) 0 = Some 1711843200000
   \<and> getCurrentMonthUsage utcCalendar exNow
        (exEventStore [exEvent, exEvent\<lparr>weightedUnits := Some 7\<rparr>,
                       exEvent\<lparr>ev_workspaceId := ''ws2''\<rparr>,
                       exEvent\<lparr>ev_timestamp := (2024, 2, 28, 0)\<rparr>])
        ''ws1'' COMPUTE = Inr 507"
proof -
  let ?db = "exEventStore [exEvent, exEvent\<lparr>weightedUnits := Some 7\<rparr>,
                       exEvent\<lparr>ev_workspaceId := ''ws2''\<rparr>,
                       exEvent\<lparr>ev_timestamp := (2024, 2, 28, 0)\<rparr>]"
  have s: "Date_fromFields utcCalendar (Date_getFullYear utcCalendar exNow)
       (Date_getMonth utcCalendar exNow) 1 = Some 1709251200000"
    unfolding ex_calendar_now by (rule ex_calendar_window)
  have e: "Date_fromFields utcCalendar (Date_getFullYear utcCalendar exNow)
       (Date_getMonth utcCalendar exNow + 1) 0 = Some 1711843200000"
    unfolding ex_calendar_now by (rule ex_calendar_window)
  have h: "\<forall>ev \<in> set (usage_events ?db).
             ev_workspaceId ev = ''ws1'' \<and> ev_resourceType ev = COMPUTE \<longrightarrow>
             (iso_le (Date_fields utcCalendar 1709251200000) (ev_timestamp ev)
                \<and> iso_le (ev_timestamp ev) (Date_fields utcCalendar 1711843200000))
             = spec_inCurrentMonth utcCalendar exNow (ev_timestamp ev)"
    unfolding ex_calendar_window ex_inCurrentMonth
    by (simp add: exEventStore_def exEvent_def)
  from C8_current_month_usage [OF s e h]
  show ?thesis
    unfolding ex_inCurrentMonth using s e
    by (simp add: exEventStore_def exEvent_def dsum_def ex_sums)
qed

text \<open>
  C8 as stated (the sum over all of the month's events) fails on a month with 10001 events
  of 500 units each: the query's limit keeps 10000 of them.
\<close>

theorem C8_limit_counterexample:
  "getCurrentMonthUsage utcCalendar exNow (exEventStore (replicate 10001 exEvent)) ''ws1'' COMPUTE
     = Inr 5000000
   \<and> spec_currentMonthUsage utcCalendar exNow (exEventStore (replicate 10001 exEvent))
       ''ws1'' COMPUTE = 5000500"
proof -
  have m: "min (10000::nat) 10001 = 10000" by simp
  have d: "dsum (replicate 10000 500) = 5000000"
    using dsum_replicate [of 500 10000] by simp
  have a: "getCurrentMonthUsage utcCalendar exNow (exEventStore (replicate 10001 exEvent))
             ''ws1'' COMPUTE = Inr 5000000"
    unfolding ex_limit_window
    by (simp add: exEventStore_def exEvent_def filter_replicate m d)
  have b: "spec_currentMonthUsage utcCalendar exNow (exEventStore (replicate 10001 exEvent))
             ''ws1'' COMPUTE = 5000500"
    unfolding spec_currentMonthUsage_def ex_inCurrentMonth
    by (simp add: exEventStore_def exEvent_def filter_replicate sum_list_replicate)
  from a b show ?thesis by simp
qed

text \<open>
  Two more inputs on which the function and the claim's wording differ. An event at noon of
  the month's last day lies outside the queried window, whose upper bound
  \<open>new Date(year, month + 1, 0)\<close> is that day's first instant: the function returns 0 where
  the month's usage is 500. And \<open>weightedUnits\<close> 0 counts as absent.
\<close>

lemma getCurrentMonthUsage_last_day_example:
  "getCurrentMonthUsage utcCalendar exNow
      (exEventStore [exEvent\<lparr>ev_timestamp := (2024, 3, 31, 43200000)\<rparr>]) ''ws1'' COMPUTE
     = Inr 0
   \<and> spec_currentMonthUsage utcCalendar exNow
      (exEventStore [exEvent\<lparr>ev_timestamp := (2024, 3, 31, 43200000)\<rparr>]) ''ws1'' COMPUTE
     = 500"
  unfolding ex_limit_window spec_currentMonthUsage_def ex_inCurrentMonth
  by (simp add: exEventStore_def exEvent_def dsum_def)

lemma getCurrentMonthUsage_zero_weight_example:
  "getCurrentMonthUsage utcCalendar exNow
      (exEventStore [exEvent\<lparr>weightedUnits := Some 0\<rparr>]) ''ws1'' COMPUTE = Inr 500
   \<and> spec_currentMonthUsage utcCalendar exNow
      (exEventStore [exEvent\<lparr>weightedUnits := Some 0\<rparr>]) ''ws1'' COMPUTE = 0"
  unfolding ex_limit_window spec_currentMonthUsage_def ex_inCurrentMonth
  by (simp add: exEventStore_def exEvent_def dsum_def ex_sums)

lemma ex_alert_lookup:
  "getBillingAccount (exAlertStore a)
     \<lparr> opt_userId = None, opt_organizationId = None, opt_workspaceId = Some ''ws1'' \<rparr> =
   (if acc_organizationId a = Some ''org1'' \<and> acc_type a = ORG then Some a else None)"
  by (simp add: getBillingAccount_def exAlertStore_def exStore_def truthyStr_def getDocument_def
        firstDocument_def listOrgAccounts_def listDocuments_def)

lemma ex_usage:
  "getCurrentMonthUsage utcCalendar exNow (exAlertStore a) ''ws1'' COMPUTE = Inr 500"
  unfolding ex_limit_window
  by (simp add: exAlertStore_def exStore_def exEvent_def dsum_def ex_sums)

lemma ex_alert_fires:
  "evaluateAlert utcCalendar (\<lambda>u. None) exNow (exAlertStore exAccount) exAlert =
     (\<lparr> res_alertId = ''alert1'', res_workspaceId = ''ws1'', res_resourceType = COMPUTE,
        res_threshold = 100, currentUsage = 500, triggered = True, notificationSent = True,
        res_error = None \<rparr>,
      (exAlertStore exAccount)
        \<lparr> usage_alerts := [exAlert\<lparr> lastTriggeredAt := Some (2024, 3, 15, 0) \<rparr>],
          notifications :=
            [\<lparr> ntf_workspaceId = ''ws1'', ntf_resourceType = COMPUTE, ntf_currentUsage = 500,
               ntf_threshold = 100, ntf_isRead = False, ntf_createdAt = (2024, 3, 15, 0),
               ntf_userId = None \<rparr>] \<rparr>,
      [])"
proof -
  have l: "getBillingAccount (exAlertStore exAccount)
     \<lparr> opt_userId = None, opt_organizationId = None, opt_workspaceId = Some ''ws1'' \<rparr> = Some exAccount"
    by (simp add: ex_alert_lookup) (simp add: exAccount_def)
  have s: "billingStatus exAccount = ACTIVE" by (simp add: exAccount_def)
  have a: "alert_id exAlert = ''alert1''" "alert_workspaceId exAlert = ''ws1''"
    "alert_resourceType exAlert = COMPUTE" "threshold exAlert = 100" "alertType exAlert = in_app"
    by (simp_all add: exAlert_def)
  have u: "usage_alerts (exAlertStore exAccount) = [exAlert]"
    "notifications (exAlertStore exAccount) = []"
    by (simp_all add: exAlertStore_def exStore_def)
  show ?thesis
    by (simp add: evaluateAlert_def Let_def a l s ex_usage sendInAppNotification_def
          updateDocument_def u ex_calendar_now)
qed

text \<open>
  C9. For every alert whose workspace resolves to a billing account with \<open>billingStatus\<close>
  SUSPENDED, \<open>evaluateAlert\<close> returns \<open>triggered: false\<close> and \<open>notificationSent: false\<close>
  with the explanatory error, whatever the usage and the threshold are; the store is left
  as it was (no notification document, no new \<open>lastTriggeredAt\<close>) and no webhook is posted.
\<close>

theorem C9_suspended_skips_alert:
  assumes "getBillingAccount databases
             \<lparr> opt_userId = None, opt_organizationId = None,
               opt_workspaceId = Some (alert_workspaceId alert) \<rparr> = Some account"
      and "billingStatus account = SUSPENDED"
  shows "evaluateAlert K fetch now databases alert =
           (\<lparr> res_alertId = alert_id alert, res_workspaceId = alert_workspaceId alert,
              res_resourceType = alert_resourceType alert, res_threshold = threshold alert,
              currentUsage = 0, triggered = False, notificationSent = False,
              res_error = Some AccountSuspendedSkipping \<rparr>,
            databases, [])"
  using assms by (simp add: evaluateAlert_def Let_def)

theorem C9_suspended_skips_alert_witness:
  "getBillingAccount (exAlertStore (exAccount\<lparr>billingStatus := SUSPENDED\<rparr>))
       \<lparr> opt_userId = None, opt_organizationId = None,
         opt_workspaceId = Some (alert_workspaceId exAlert) \<rparr>
     = Some (exAccount\<lparr>billingStatus := SUSPENDED\<rparr>)
   \<and> getCurrentMonthUsage utcCalendar exNow
        (exAlertStore (exAccount\<lparr>billingStatus := SUSPENDED\<rparr>)) ''ws1'' COMPUTE = Inr 500
   \<and> threshold exAlert = 100
   \<and> evaluateAlert utcCalendar (\<lambda>u. None) exNow
        (exAlertStore (exAccount\<lparr>billingStatus := SUSPENDED\<rparr>)) exAlert =
        (\<lparr> res_alertId = ''alert1'', res_workspaceId = ''ws1'', res_resourceType = COMPUTE,
           res_threshold = 100, currentUsage = 0, triggered = False, notificationSent = False,
           res_error = Some AccountSuspendedSkipping \<rparr>,
         exAlertStore (exAccount\<lparr>billingStatus := SUSPENDED\<rparr>), [])"
proof -
  let ?s = "exAccount\<lparr>billingStatus := SUSPENDED\<rparr>"
  have w: "alert_workspaceId exAlert = ''ws1''" by (simp add: exAlert_def)
  have l: "getBillingAccount (exAlertStore ?s)
       \<lparr> opt_userId = None, opt_organizationId = None,
         opt_workspaceId = Some (alert_workspaceId exAlert) \<rparr> = Some ?s"
    unfolding w by (simp add: ex_alert_lookup) (simp add: exAccount_def)
  have s: "billingStatus ?s = SUSPENDED" by simp
  from C9_suspended_skips_alert [OF l s, of utcCalendar "\<lambda>u. None" exNow]
  show ?thesis using l by (simp add: ex_usage) (simp add: exAlert_def)
qed

subsection \<open>Aggregation reconciliation\<close>

lemma sumEvents_fold:
  "fold (\<lambda>event (trafficBytes, storageBytes, computeUnits).
             case ev_resourceType event of
               TRAFFIC \<Rightarrow> (dadd trafficBytes (units event), storageBytes, computeUnits)
             | STORAGE \<Rightarrow> (trafficBytes, dadd storageBytes (units event), computeUnits)
             | COMPUTE \<Rightarrow> (trafficBytes, storageBytes,
                            dadd computeUnits (orElse (weightedUnits event) (units event))))
          events (a, b, c) =
     (fold (\<lambda>x total. dadd total x)
        (map units (filter (\<lambda>e. ev_resourceType e = TRAFFIC) events)) a,
      fold (\<lambda>x total. dadd total x)
        (map units (filter (\<lambda>e. ev_resourceType e = STORAGE) events)) b,
      fold (\<lambda>x total. dadd total x)
        (map (\<lambda>e. orElse (weightedUnits e) (units e))
           (filter (\<lambda>e. ev_resourceType e = COMPUTE) events)) c)"
proof (induction events arbitrary: a b c)
  case Nil
  then show ?case by simp
next
  case (Cons x xs)
  show ?case
    by (cases "ev_resourceType x") (simp_all add: Cons.IH)
qed

lemma sumEvents_sums:
  "sumEvents events =
     (dsum (map units (filter (\<lambda>e. ev_resourceType e = TRAFFIC) events)),
      dsum (map units (filter (\<lambda>e. ev_resourceType e = STORAGE) events)),
      dsum (map (\<lambda>e. case weightedUnits e of
                        None \<Rightarrow> units e
                      | Some w \<Rightarrow> if w = 0 then units e else w)
              (filter (\<lambda>e. ev_resourceType e = COMPUTE) events)))"
  unfolding sumEvents_def sumEvents_fold dsum_def by (simp add: orElse_def)

lemma assertAggregationMatchesEvents_found:
  assumes "getDocument (usage_aggregations databases) agg_id aggregationId = Inr aggregation"
      and "setNextMonth K (Date_parseDay K (period aggregation)) = Some t"
  shows "assertAggregationMatchesEvents K databases aggregationId tolerance =
     (let events =
            take 10000
              (filter (\<lambda>e. ev_workspaceId e = agg_workspaceId aggregation
                         \<and> iso_le (fst (period aggregation), snd (period aggregation), 1, 0)
                              (ev_timestamp e)
                         \<and> iso_lt (ev_timestamp e) (Date_fields K t))
                 (usage_events databases));
          traffic = ddiv (dsum (map units (filter (\<lambda>e. ev_resourceType e = TRAFFIC) events)))
                      (1024 * 1024 * 1024);
          storage = ddiv (dsum (map units (filter (\<lambda>e. ev_resourceType e = STORAGE) events)))
                      (1024 * 1024 * 1024);
          compute = dsum (map (\<lambda>e. case weightedUnits e of
                                     None \<Rightarrow> units e
                                   | Some w \<Rightarrow> if w = 0 then units e else w)
                           (filter (\<lambda>e. ev_resourceType e = COMPUTE) events))
      in
        \<lparr> matches =
            (\<bar>dsub (trafficTotalGB aggregation) traffic\<bar>
               \<le> dmul (if trafficTotalGB aggregation = 0 then 1
                        else trafficTotalGB aggregation) tolerance
             \<and> \<bar>dsub (storageAvgGB aggregation) storage\<bar>
               \<le> dmul (if storageAvgGB aggregation = 0 then 1
                        else storageAvgGB aggregation) tolerance
             \<and> \<bar>dsub (computeTotalUnits aggregation) compute\<bar>
               \<le> dmul (if computeTotalUnits aggregation = 0 then 1
                        else computeTotalUnits aggregation) tolerance),
          diff = Some \<lparr> diff_trafficGB = \<bar>dsub (trafficTotalGB aggregation) traffic\<bar>,
                        diff_storageGB = \<bar>dsub (storageAvgGB aggregation) storage\<bar>,
                        diff_computeUnits = \<bar>dsub (computeTotalUnits aggregation) compute\<bar> \<rparr> \<rparr>)"
  using assms
  by (simp add: assertAggregationMatchesEvents_def toISOFields_def listDocuments_documents
        sumEvents_sums Let_def orOne_def)

lemma ex_aggregation_found:
  "getDocument (usage_aggregations (exAggStore (exAggregation a b) evs)) agg_id ''agg1''
     = Inr (exAggregation a b)"
  by (simp add: getDocument_def exAggStore_def exAggregation_def)

lemma ex_next_month:
  "setNextMonth utcCalendar (Date_parseDay utcCalendar (period (exAggregation a b)))
     = Some 1711929600000"
proof -
  have "period (exAggregation a b) = (2024, 3)" by (simp add: exAggregation_def)
  then show ?thesis
    unfolding setNextMonth_def by (simp add: ex_calendar_period)
qed

lemma ex_inPeriod:
  "spec_inPeriod (period (exAggregation a b)) ts = (fst ts = 2024 \<and> fst (snd ts) = 3)"
  by (simp add: spec_inPeriod_def exAggregation_def)

lemma ex_period_window:
  "ev_timestamp ev = (2024, 3, 10, 0) \<Longrightarrow>
   (iso_le (fst (period (exAggregation a b)), snd (period (exAggregation a b)), 1, 0)
        (ev_timestamp ev)
      \<and> iso_lt (ev_timestamp ev) (Date_fields utcCalendar 1711929600000))
   = spec_inPeriod (period (exAggregation a b)) (ev_timestamp ev)"
  unfolding ex_inPeriod ex_calendar_period by (simp add: exAggregation_def)

lemma ex_matches:
  "matches (assertAggregationMatchesEvents utcCalendar (exAggStore (exAggregation a b) evs)
      ''agg1'' tolerance) =
     (let events =
            take 10000
              (filter (\<lambda>e. ev_workspaceId e = ''ws1''
                         \<and> iso_le (2024, 3, 1, 0) (ev_timestamp e)
                         \<and> iso_lt (ev_timestamp e) (2024, 4, 1, 0))
                 evs);
          traffic = ddiv (dsum (map units (filter (\<lambda>e. ev_resourceType e = TRAFFIC) events)))
                      1073741824;
          storage = ddiv (dsum (map units (filter (\<lambda>e. ev_resourceType e = STORAGE) events)))
                      1073741824;
          compute = dsum (map (\<lambda>e. case weightedUnits e of
                                     None \<Rightarrow> units e
                                   | Some w \<Rightarrow> if w = 0 then units e else w)
                           (filter (\<lambda>e. ev_resourceType e = COMPUTE) events))
      in
        \<bar>dsub a traffic\<bar> \<le> dmul (if a = 0 then 1 else a) tolerance
        \<and> \<bar>dsub 0 storage\<bar> \<le> dmul 1 tolerance
        \<and> \<bar>dsub b compute\<bar> \<le> dmul (if b = 0 then 1 else b) tolerance)"
  unfolding assertAggregationMatchesEvents_found [OF ex_aggregation_found ex_next_month]
    ex_calendar_period Let_def
  by (simp add: exAggregation_def exAggStore_def)

lemma ex_zero_stored:
  "matches (assertAggregationMatchesEvents utcCalendar
      (exAggStore (exAggregation 0 0) [exTraffic 1048576]) ''agg1'' double_0_01)"
  unfolding ex_matches Let_def
  by (simp add: exTraffic_def dsum_def ex_dadd ex_ddiv ex_dsub ex_dmul ex_tolerance)

lemma ex_zero_stored_spec:
  "\<not> spec_aggregationMatches (exAggStore (exAggregation 0 0) [exTraffic 1048576])
       (exAggregation 0 0) double_0_01"
  by (simp add: spec_aggregationMatches_def spec_inPeriod_def exAggStore_def exAggregation_def
        exTraffic_def)

lemma ex_limit_events:
  "take 10000
     (filter (\<lambda>e. ev_workspaceId e = ''ws1''
                \<and> iso_le (2024, 3, 1, 0) (ev_timestamp e)
                \<and> iso_lt (ev_timestamp e) (2024, 4, 1, 0))
        (replicate 10000 (exEvent\<lparr>units := 1\<rparr>) @ [exTraffic 1073741824]))
   = replicate 10000 (exEvent\<lparr>units := 1\<rparr>)"
  by (simp add: filter_replicate exEvent_def exTraffic_def)

lemma ex_limit:
  "\<not> matches (assertAggregationMatchesEvents utcCalendar
        (exAggStore (exAggregation 1 10000)
           (replicate 10000 (exEvent\<lparr>units := 1\<rparr>) @ [exTraffic 1073741824]))
        ''agg1'' double_0_01)"
proof -
  have "filter (\<lambda>e. ev_resourceType e = TRAFFIC) (replicate 10000 (exEvent\<lparr>units := 1\<rparr>)) = []"
    by (simp add: filter_replicate exEvent_def)
  then have "\<not> \<bar>dsub 1 (ddiv (dsum (map units
                 (filter (\<lambda>e. ev_resourceType e = TRAFFIC)
                    (replicate 10000 (exEvent\<lparr>units := 1\<rparr>))))) 1073741824)\<bar>
               \<le> dmul 1 double_0_01"
    by (simp add: dsum_Nil ex_ddiv ex_dsub ex_dmul ex_tolerance)
  then show ?thesis
    unfolding ex_matches ex_limit_events Let_def by simp
qed

lemma ex_limit_spec:
  "spec_aggregationMatches
     (exAggStore (exAggregation 1 10000)
        (replicate 10000 (exEvent\<lparr>units := 1\<rparr>) @ [exTraffic 1073741824]))
     (exAggregation 1 10000) double_0_01"
  by (simp add: spec_aggregationMatches_def spec_inPeriod_def exAggStore_def exAggregation_def
        exTraffic_def exEvent_def filter_replicate sum_list_replicate double_0_01_def)

text \<open>
  C7, as amended. For a stored aggregation whose period is a valid month,
  \<open>assertAggregationMatchesEvents\<close> recomputes the traffic, storage and compute totals from
  the period's usage events of the aggregation's workspace, cut at the first 10000 of them in
  the store's order and added in double precision (a compute event counts its
  \<open>weightedUnits\<close> when present and not 0, else its \<open>units\<close>), and \<open>matches\<close> is true
  exactly when, for each metric, the absolute difference between the stored and the
  recomputed value is at most the stored value, or 1 when the stored value is 0, times the
  tolerance, the difference and the product rounded to doubles. This is stated for the
  stores in which the workspace's events inside the window the function queries are exactly
  those of the period; other stores are outside the statement.
\<close>

theorem C7_aggregation_tolerance:
  assumes "getDocument (usage_aggregations databases) agg_id aggregationId = Inr aggregation"
      and "setNextMonth K (Date_parseDay K (period aggregation)) = Some t"
      and "\<forall>ev \<in> set (usage_events databases).
             ev_workspaceId ev = agg_workspaceId aggregation \<longrightarrow>
             (iso_le (fst (period aggregation), snd (period aggregation), 1, 0) (ev_timestamp ev)
                \<and> iso_lt (ev_timestamp ev) (Date_fields K t))
             = spec_inPeriod (period aggregation) (ev_timestamp ev)"
  shows "matches (assertAggregationMatchesEvents K databases aggregationId tolerance) =
     (let events =
            take 10000
              (filter (\<lambda>e. ev_workspaceId e = agg_workspaceId aggregation
                         \<and> spec_inPeriod (period aggregation) (ev_timestamp e))
                 (usage_events databases));
          traffic = ddiv (dsum (map units (filter (\<lambda>e. ev_resourceType e = TRAFFIC) events)))
                      (1024 * 1024 * 1024);
          storage = ddiv (dsum (map units (filter (\<lambda>e. ev_resourceType e = STORAGE) events)))
                      (1024 * 1024 * 1024);
          compute = dsum (map (\<lambda>e. case weightedUnits e of
                                     None \<Rightarrow> units e
                                   | Some w \<Rightarrow> if w = 0 then units e else w)
                           (filter (\<lambda>e. ev_resourceType e = COMPUTE) events))
      in
        \<bar>dsub (trafficTotalGB aggregation) traffic\<bar>
          \<le> dmul (if trafficTotalGB aggregation = 0 then 1
                   else trafficTotalGB aggregation) tolerance
        \<and> \<bar>dsub (storageAvgGB aggregation) storage\<bar>
          \<le> dmul (if storageAvgGB aggregation = 0 then 1
                   else storageAvgGB aggregation) tolerance
        \<and> \<bar>dsub (computeTotalUnits aggregation) compute\<bar>
          \<le> dmul (if computeTotalUnits aggregation = 0 then 1
                   else computeTotalUnits aggregation) tolerance)"
proof -
  have "filter (\<lambda>e. ev_workspaceId e = agg_workspaceId aggregation
                  \<and> iso_le (fst (period aggregation), snd (period aggregation), 1, 0)
                       (ev_timestamp e)
                  \<and> iso_lt (ev_timestamp e) (Date_fields K t))
          (usage_events databases)
        = filter (\<lambda>e. ev_workspaceId e = agg_workspaceId aggregation
                    \<and> spec_inPeriod (period aggregation) (ev_timestamp e))
            (usage_events databases)"
    using assms(3) by (intro filter_cong) auto
  then show ?thesis
    unfolding assertAggregationMatchesEvents_found [OF assms(1,2)] Let_def by simp
qed

theorem C7_aggregation_tolerance_witness:
  "getDocument (usage_aggregations (exAggStore (exAggregation 100 0) [exTraffic 107911053312]))
       agg_id ''agg1'' = Inr (exAggregation 100 0)
   \<and> setNextMonth utcCalendar (Date_parseDay utcCalendar (period (exAggregation 100 0)))
       = Some 1711929600000
   \<and> matches (assertAggregationMatchesEvents utcCalendar
        (exAggStore (exAggregation 100 0) [exTraffic 107911053312]) ''agg1'' double_0_01)
   \<and> \<not> matches (assertAggregationMatchesEvents utcCalendar
        (exAggStore (exAggregation 100 0) [exTraffic 109521666048]) ''agg1'' double_0_01)"
proof -
  have h: "\<forall>ev \<in> set (usage_events (exAggStore (exAggregation 100 0) [exTraffic bytes])).
             ev_workspaceId ev = agg_workspaceId (exAggregation 100 0) \<longrightarrow>
             (iso_le (fst (period (exAggregation 100 0)), snd (period (exAggregation 100 0)), 1, 0)
                  (ev_timestamp ev)
                \<and> iso_lt (ev_timestamp ev) (Date_fields utcCalendar 1711929600000))
             = spec_inPeriod (period (exAggregation 100 0)) (ev_timestamp ev)" for bytes
    using ex_period_window [of "exTraffic bytes" 100 0]
    by (simp add: exAggStore_def exTraffic_def)
  have t: "ev_resourceType (exTraffic bytes) = TRAFFIC" "units (exTraffic bytes) = bytes"
    "ev_workspaceId (exTraffic bytes) = ''ws1''" "ev_timestamp (exTraffic bytes) = (2024, 3, 10, 0)"
    for bytes
    by (simp_all add: exTraffic_def)
  have a: "trafficTotalGB (exAggregation 100 0) = 100" "storageAvgGB (exAggregation 100 0) = 0"
    "computeTotalUnits (exAggregation 100 0) = 0" "agg_workspaceId (exAggregation 100 0) = ''ws1''"
    by (simp_all add: exAggregation_def)
  have u: "usage_events (exAggStore g evs) = evs" for g evs
    by (simp add: exAggStore_def)
  have c: "(0::real) \<le> double_0_01" by (simp add: double_0_01_def)
  from C7_aggregation_tolerance [OF ex_aggregation_found ex_next_month h, of 107911053312 double_0_01]
       C7_aggregation_tolerance [OF ex_aggregation_found ex_next_month h, of 109521666048 double_0_01]
  show ?thesis
    unfolding Let_def ex_inPeriod u
    by (simp add: ex_aggregation_found ex_next_month t a dsum_def
          ex_dadd ex_ddiv ex_dsub ex_dmul c)
qed

text \<open>
  C7 as stated fails in two ways. Where the stored value is 0 the bound the function uses
  is \<open>1 * tolerance\<close>, not \<open>storedValue * tolerance\<close>: with one megabyte of traffic
  recorded against a stored total of 0 it reports a match. And the totals are recomputed
  from the first 10000 events only: with 10000 compute events followed by one gigabyte of
  traffic, an aggregation that holds the right totals (1 GB, 10000 units) is reported as a
  mismatch.
\<close>

theorem C7_counterexample:
  "matches (assertAggregationMatchesEvents utcCalendar
      (exAggStore (exAggregation 0 0) [exTraffic 1048576]) ''agg1'' double_0_01)
   \<and> \<not> spec_aggregationMatches (exAggStore (exAggregation 0 0) [exTraffic 1048576])
       (exAggregation 0 0) double_0_01
   \<and> \<not> matches (assertAggregationMatchesEvents utcCalendar
        (exAggStore (exAggregation 1 10000)
           (replicate 10000 (exEvent\<lparr>units := 1\<rparr>) @ [exTraffic 1073741824]))
        ''agg1'' double_0_01)
   \<and> spec_aggregationMatches
       (exAggStore (exAggregation 1 10000)
          (replicate 10000 (exEvent\<lparr>units := 1\<rparr>) @ [exTraffic 1073741824]))
       (exAggregation 1 10000) double_0_01"
  using ex_zero_stored ex_zero_stored_spec ex_limit ex_limit_spec by blast

text \<open>
  The comparison is one of doubles: stored 30 units against events of 30 and 0.3 units
  gives the difference 0.3000000000000007 and the bound 0.3 (both rounded), hence a
  mismatch, although the exact difference is within one hundredth of 30.
\<close>

lemma assertAggregationMatchesEvents_rounding_example:
  "\<not> matches (assertAggregationMatchesEvents utcCalendar
        (exAggStore (exAggregation 0 30)
           [exEvent\<lparr>units := 30\<rparr>,
            exEvent\<lparr>units := 5404319552844595 / 18014398509481984\<rparr>])
        ''agg1'' double_0_01)
   \<and> spec_aggregationMatches
        (exAggStore (exAggregation 0 30)
           [exEvent\<lparr>units := 30\<rparr>,
            exEvent\<lparr>units := 5404319552844595 / 18014398509481984\<rparr>])
        (exAggregation 0 30) double_0_01"
proof -
  have "\<not> matches (assertAggregationMatchesEvents utcCalendar
        (exAggStore (exAggregation 0 30)
           [exEvent\<lparr>units := 30\<rparr>,
            exEvent\<lparr>units := 5404319552844595 / 18014398509481984\<rparr>])
        ''agg1'' double_0_01)"
    unfolding ex_matches Let_def
    by (simp add: exEvent_def dsum_def ex_dadd ex_ddiv ex_dsub ex_dmul ex_tolerance
          ex_rounding_doubles)
  moreover have "spec_aggregationMatches
        (exAggStore (exAggregation 0 30)
           [exEvent\<lparr>units := 30\<rparr>,
            exEvent\<lparr>units := 5404319552844595 / 18014398509481984\<rparr>])
        (exAggregation 0 30) double_0_01"
    by (simp add: spec_aggregationMatches_def spec_inPeriod_def exAggStore_def
          exAggregation_def exEvent_def double_0_01_def)
  ultimately show ?thesis by simp
qed

end
